theory Spec2Isabelle
  imports Complex_Main "HOL-Library.Log_Nat" "HOL-Library.Multiset"
begin

section \<open>Go values: float64, time.Time, time.Duration\<close>

subsection \<open>float64\<close>

text \<open>
  A finite \<^verbatim>\<open>float64\<close> is a rational number with a 53-bit significand. Every arithmetic
  operation of the source is modelled as the exact operation followed by rounding to the
  nearest such number, ties to the even significand (IEEE 754 binary64, the only rounding
  mode Go uses). The exponent range is not bounded: overflow to infinity, subnormal
  numbers, NaN and the sign of zero are outside the model, and a division by zero, which
  yields an infinity or NaN in Go, has the value \<open>0\<close> here.
\<close>

type_synonym float64 = rat

definition pow2 :: "int \<Rightarrow> rat" where
  "pow2 e = (if 0 \<le> e then 2 ^ nat e else 1 / 2 ^ nat (- e))"

definition ilog2 :: "rat \<Rightarrow> int" where
  \<comment> \<open>the binary exponent of a positive number: \<open>2 ^ ilog2 x \<le> x < 2 ^ (ilog2 x + 1)\<close>\<close>
  "ilog2 x = (case quotient_of x of (p, q) \<Rightarrow>
     let k = bitlen p - bitlen q in if pow2 k \<le> x then k else k - 1)"

definition round_even :: "rat \<Rightarrow> int" where
  "round_even q = (let f = \<lfloor>q\<rfloor>; d = q - of_int f
     in if d < 1 / 2 then f else if 1 / 2 < d then f + 1 else if even f then f else f + 1)"

definition f64 :: "rat \<Rightarrow> float64" where
  "f64 x = (if x = 0 then 0
     else let u = pow2 (ilog2 \<bar>x\<bar> - 52) in of_int (round_even (x / u)) * u)"

definition fadd :: "float64 \<Rightarrow> float64 \<Rightarrow> float64" where
  "fadd a b = f64 (a + b)"

definition fsub :: "float64 \<Rightarrow> float64 \<Rightarrow> float64" where
  "fsub a b = f64 (a - b)"

definition fmul :: "float64 \<Rightarrow> float64 \<Rightarrow> float64" where
  "fmul a b = f64 (a * b)"

definition fdiv :: "float64 \<Rightarrow> float64 \<Rightarrow> float64" where
  "fdiv a b = f64 (a / b)"

definition float64_of_int :: "int \<Rightarrow> float64" where
  \<comment> \<open>the conversion \<^verbatim>\<open>float64(n)\<close>\<close>
  "float64_of_int n = f64 (of_int n)"

definition MaxFloat64 :: float64 where
  \<comment> \<open>\<^verbatim>\<open>math.MaxFloat64\<close>, \<open>(2 - 2^-52) * 2^1023 = (2^53 - 1) * 2^971\<close>, written as a numeral\<close>
  "MaxFloat64 = 179769313486231570814527423731704356798070567525844996598917476803157260780028538760589558632766878171540458953514382464234321326889464182768467546703537516986049910576551282076245490090389328944075868508455133942304583236903222948165808559332123348274797826204144723168738177180919299881250404026184124858368"

subsection \<open>time.Time and time.Duration\<close>

text \<open>
  A \<^verbatim>\<open>time.Duration\<close> is a count of nanoseconds. A \<^verbatim>\<open>time.Time\<close> is an instant
  (nanoseconds since the Unix epoch) together with its location; locations are modelled
  as fixed offsets from UTC in seconds. \<^verbatim>\<open>Before\<close>, \<^verbatim>\<open>After\<close> and \<^verbatim>\<open>Sub\<close> compare
  instants only; \<^verbatim>\<open>Add\<close> keeps the location.
\<close>

type_synonym Duration = int

definition Second :: Duration where "Second = 1000000000"
definition Minute :: Duration where "Minute = 60 * Second"
definition Hour :: Duration where "Hour = 60 * Minute"

record Time =
  unixNano :: int
  zoneOffset :: int

definition zeroTime :: Time where
  \<comment> \<open>\<^verbatim>\<open>time.Time{}\<close>: January 1, year 1, 00:00:00 UTC\<close>
  "zeroTime = \<lparr>unixNano = - 62135596800 * Second, zoneOffset = 0\<rparr>"

definition IsZero :: "Time \<Rightarrow> bool" where
  "IsZero t = (unixNano t = unixNano zeroTime)"

definition Before :: "Time \<Rightarrow> Time \<Rightarrow> bool" where
  "Before t u = (unixNano t < unixNano u)"

definition After :: "Time \<Rightarrow> Time \<Rightarrow> bool" where
  "After t u = (unixNano u < unixNano t)"

definition Add :: "Time \<Rightarrow> Duration \<Rightarrow> Time" where
  "Add t d = t\<lparr>unixNano := unixNano t + d\<rparr>"

definition Sub :: "Time \<Rightarrow> Time \<Rightarrow> Duration" where
  "Sub t u = unixNano t - unixNano u"

definition In :: "Time \<Rightarrow> int \<Rightarrow> Time" where
  \<comment> \<open>\<^verbatim>\<open>t.In(loc)\<close>: the same instant, seen in another location\<close>
  "In t loc = t\<lparr>zoneOffset := loc\<rparr>"

definition localNano :: "Time \<Rightarrow> int" where
  \<comment> \<open>the wall clock reading in the time's own location\<close>
  "localNano t = unixNano t + zoneOffset t * Second"

definition localMidnight :: "Time \<Rightarrow> Time" where
  \<comment> \<open>\<^verbatim>\<open>time.Date(y, m, d, 0, 0, 0, 0, t.Location())\<close> for the date \<open>y, m, d\<close> of \<open>t\<close>\<close>
  "localMidnight t = t\<lparr>unixNano := unixNano t - localNano t mod (24 * Hour)\<rparr>"

definition Seconds :: "Duration \<Rightarrow> float64" where
  \<comment> \<open>\<^verbatim>\<open>d.Seconds()\<close>: \<^verbatim>\<open>float64(d / Second) + float64(d % Second) / 1e9\<close>,
      with Go's division truncating toward zero\<close>
  "Seconds d = fadd (float64_of_int (sgn d * (\<bar>d\<bar> div Second)))
                    (fdiv (float64_of_int (sgn d * (\<bar>d\<bar> mod Second))) 1000000000)"

definition Hours :: "Duration \<Rightarrow> float64" where
  \<comment> \<open>\<^verbatim>\<open>d.Hours()\<close>: \<^verbatim>\<open>float64(d / Hour) + float64(d % Hour) / (60 * 60 * 1e9)\<close>\<close>
  "Hours d = fadd (float64_of_int (sgn d * (\<bar>d\<bar> div Hour)))
                  (fdiv (float64_of_int (sgn d * (\<bar>d\<bar> mod Hour))) 3600000000000)"

section \<open>decimal.Decimal (github.com/shopspring/decimal)\<close>

text \<open>
  A \<^verbatim>\<open>Decimal\<close> is an arbitrary-precision decimal number; the model keeps its value, a
  rational. \<^verbatim>\<open>Add\<close>, \<^verbatim>\<open>Sub\<close> and \<^verbatim>\<open>Mul\<close> are exact and are written \<open>+\<close>, \<open>-\<close>, \<open>*\<close>;
  \<^verbatim>\<open>IsZero\<close>, \<^verbatim>\<open>LessThan\<close> and \<^verbatim>\<open>GreaterThan\<close> compare values. \<^verbatim>\<open>Div\<close> rounds the
  quotient to \<^verbatim>\<open>DivisionPrecision = 16\<close> digits after the decimal point, a half away from
  zero, and panics on a zero divisor (the result \<open>None\<close>). \<^verbatim>\<open>NewFromFloat\<close> returns the
  decimal of fewest significant digits that converts back to the same float64, the one
  nearest to the float's exact value when there are two.
\<close>

type_synonym Decimal = rat

definition DivisionPrecision :: nat where
  "DivisionPrecision = 16"

definition DivRound :: "Decimal \<Rightarrow> Decimal \<Rightarrow> nat \<Rightarrow> Decimal" where
  \<comment> \<open>for a divisor other than zero\<close>
  "DivRound d d2 precision =
     (let q = d / d2
      in sgn q * of_int \<lfloor>\<bar>q\<bar> * 10 ^ precision + 1 / 2\<rfloor> / 10 ^ precision)"

definition Div :: "Decimal \<Rightarrow> Decimal \<Rightarrow> Decimal option" where
  "Div d d2 = (if d2 = 0 then None else Some (DivRound d d2 DivisionPrecision))"

definition pow10 :: "int \<Rightarrow> rat" where
  "pow10 e = (if 0 \<le> e then 10 ^ nat e else 1 / 10 ^ nat (- e))"

function declen :: "int \<Rightarrow> int" where
  \<comment> \<open>the number of decimal digits of a positive integer\<close>
  "declen x = (if 0 < x then declen (x div 10) + 1 else 0)"
  by pat_completeness auto
termination
  by (relation "measure nat") auto

definition ilog10 :: "rat \<Rightarrow> int" where
  \<comment> \<open>the decimal exponent of a positive number: \<open>10 ^ ilog10 x \<le> x < 10 ^ (ilog10 x + 1)\<close>\<close>
  "ilog10 x = (case quotient_of x of (p, q) \<Rightarrow>
     let k = declen p - declen q in if pow10 k \<le> x then k else k - 1)"

fun shortestFrom :: "nat \<Rightarrow> nat \<Rightarrow> rat \<Rightarrow> rat" where
  \<comment> \<open>tries \<open>n\<close>, \<open>n + 1\<close>, ... significant digits for a positive float64 \<open>y\<close>; the first
      argument bounds the number of attempts (17 digits always suffice)\<close>
  "shortestFrom 0 n y = y"
| "shortestFrom (Suc k) n y =
     (let u = pow10 (ilog10 y - int n + 1);
          m = \<lfloor>y / u\<rfloor>;
          lo = of_int m * u;
          hi = lo + u;
          okdown = (f64 lo = y);
          okup = (f64 hi = y)
      in if okdown \<and> okup
         then (if y - lo < hi - y then lo else if hi - y < y - lo then hi
               else if even m then lo else hi)
         else if okdown then lo
         else if okup then hi
         else shortestFrom k (n + 1) y)"

definition NewFromFloat :: "float64 \<Rightarrow> Decimal" where
  "NewFromFloat x = (if x = 0 then 0 else sgn x * shortestFrom 17 1 \<bar>x\<bar>)"

section \<open>Records of the ledger and the configuration\<close>

datatype TradeAction = ActionCharge | ActionDischarge | ActionOther string

record Trade =
  Timestamp :: Time
  Action :: TradeAction
  PriceEUR :: Decimal
  PowerW :: int
  DurationS :: int
  EnergyKWh :: Decimal
  StartSOC :: int
  EndSOC :: int

text \<open>
  \<^verbatim>\<open>DailySummary.Date\<close> is the string \<^verbatim>\<open>Timestamp.Format("2006-01-02")\<close>. The model keeps the
  calendar day it denotes, as the number of days since 1970-01-01; for the years 0000 to
  9999 the strings are ordered as the day numbers are.
\<close>

record DailySummary =
  Date :: int
  ChargedKWh :: Decimal
  DischargedKWh :: Decimal
  ChargeCycles :: int
  DischargeCycles :: int
  PnLEUR :: Decimal
  AvgChargePrice :: Decimal
  MinChargePrice :: Decimal
  AvgDischargePrice :: Decimal
  MaxDischargePrice :: Decimal
  Trades :: "Trade list"

record History =
  Days :: "DailySummary list"
  TotalPnL :: Decimal
  TotalDays :: int
  FirstTrade :: "Time option"
  LastTrade :: "Time option"

record Recorder =
  trades :: "Trade list"
  loc :: int

record Config =
  MinPriceSpread :: float64
  BatteryEfficiency :: float64
  BatteryCapacityKWh :: float64
  BatteryMinSOC :: float64
  MaxCyclesPerDay :: int
  ChargePowerW :: int
  DischargePowerW :: int
  PassiveModeTimeoutS :: int

section \<open>The price window analyzer (service/analyzer.go)\<close>

record Price =
  Time :: Time
  Value :: float64

record TimeWindow =
  Start :: Time
  End :: Time
  Price :: float64

record TradeCycle =
  ChargeWindow :: TimeWindow
  DischargeWindow :: TimeWindow
  Profit :: float64

record TradingPlan =
  Date :: Time
  ChargeWindows :: "TimeWindow list"
  DischargeWindows :: "TimeWindow list"
  Cycles :: "TradeCycle list"
  MinPrice :: float64
  MaxPrice :: float64
  Spread :: float64
  IsProfitable :: bool

record AnalyzerConfig =
  Efficiency :: float64
  MinPriceSpread :: float64
  BatteryCapacityKWh :: float64
  BatteryMinSOC :: float64
  ChargePowerW :: int
  DischargePowerW :: int
  MaxCyclesPerDay :: int

definition zeroWindow :: TimeWindow where
  "zeroWindow = \<lparr>Start = zeroTime, End = zeroTime, Price = 0\<rparr>"

definition zeroCycle :: TradeCycle where
  "zeroCycle = \<lparr>ChargeWindow = zeroWindow, DischargeWindow = zeroWindow, Profit = 0\<rparr>"

definition zeroPlan :: TradingPlan where
  \<comment> \<open>\<^verbatim>\<open>&TradingPlan{}\<close>\<close>
  "zeroPlan = \<lparr>Date = zeroTime, ChargeWindows = [], DischargeWindows = [], Cycles = [],
     MinPrice = 0, MaxPrice = 0, Spread = 0, IsProfitable = False\<rparr>"

definition sortByTime :: "Price list \<Rightarrow> Price list" where
  \<comment> \<open>\<^verbatim>\<open>sort.Slice\<close> on a copy, ordered by \<^verbatim>\<open>Time.Before\<close>. The library sort is not stable;
      for pairwise distinct instants the result is the one computed here.\<close>
  "sortByTime prices = sort_key (\<lambda>p. unixNano (Time p)) prices"

fun minMaxLoop :: "Price list \<Rightarrow> float64 \<Rightarrow> float64 \<Rightarrow> float64 \<times> float64" where
  "minMaxLoop [] minPrice maxPrice = (minPrice, maxPrice)"
| "minMaxLoop (p # ps) minPrice maxPrice =
     minMaxLoop ps (if Value p < minPrice then Value p else minPrice)
                   (if Value p > maxPrice then Value p else maxPrice)"

definition calculateWindowSize :: "float64 \<Rightarrow> int \<Rightarrow> int" where
  \<comment> \<open>\<^verbatim>\<open>int(math.Ceil(hours * 4))\<close> is the ceiling itself while it fits Go's 64-bit
      \<^verbatim>\<open>int\<close>; beyond that range Go leaves the conversion to the implementation, and
      the value here is the ceiling all the same\<close>
  "calculateWindowSize capacityKWh powerW =
     (if powerW \<le> 0 then 8
      else let powerKW = fdiv (float64_of_int powerW) 1000;
               hours = fdiv capacityKWh powerKW;
               slots = \<lceil>fmul hours 4\<rceil>
           in if slots < 1 then 1 else slots)"

definition windowSum :: "Price list \<Rightarrow> nat \<Rightarrow> nat \<Rightarrow> float64" where
  \<comment> \<open>the summing loop \<^verbatim>\<open>for i := startIdx; i < startIdx+windowSize; i++\<close>;
      every caller keeps \<open>startIdx + windowSize \<le> length prices\<close>\<close>
  "windowSum prices startIdx windowSize =
     fold (\<lambda>i s. fadd s (Value (prices ! i))) [startIdx ..< startIdx + windowSize] 0"

definition windowAverage :: "Price list \<Rightarrow> nat \<Rightarrow> nat \<Rightarrow> float64" where
  "windowAverage prices startIdx windowSize =
     fdiv (windowSum prices startIdx windowSize) (float64_of_int (int windowSize))"

function slideLoop ::
  "Price list \<Rightarrow> nat \<Rightarrow> bool \<Rightarrow> nat \<Rightarrow> float64 \<Rightarrow> int \<Rightarrow> float64 \<Rightarrow> int \<times> float64" where
  "slideLoop prices windowSize findLowest i wsum bestStart bestAvg =
     (if i + windowSize \<le> length prices then
        let wsum' = fadd (fsub wsum (Value (prices ! (i - 1))))
                         (Value (prices ! (i + windowSize - 1)));
            avg = fdiv wsum' (float64_of_int (int windowSize))
        in if (if findLowest then avg < bestAvg else avg > bestAvg)
           then slideLoop prices windowSize findLowest (i + 1) wsum' (int i) avg
           else slideLoop prices windowSize findLowest (i + 1) wsum' bestStart bestAvg
      else (bestStart, bestAvg))"
  by pat_completeness auto
termination
  by (relation "measure (\<lambda>(prices, windowSize, findLowest, i, wsum, bestStart, bestAvg).
        length prices + 1 - i)") auto

definition findBestWindow :: "Price list \<Rightarrow> nat \<Rightarrow> nat \<Rightarrow> bool \<Rightarrow> nat \<times> float64 \<times> bool" where
  "findBestWindow prices startIdx windowSize findLowest =
     (if startIdx + windowSize > length prices then (0, 0, False)
      else
        let bestAvg0 = (if findLowest then MaxFloat64 else - MaxFloat64);
            wsum = windowSum prices startIdx windowSize;
            avg = fdiv wsum (float64_of_int (int windowSize));
            first = (if findLowest then avg < bestAvg0 else avg > bestAvg0);
            (bestStart, bestAvg) =
               slideLoop prices windowSize findLowest (startIdx + 1) wsum
                 (if first then int startIdx else - 1) (if first then avg else bestAvg0)
        in if bestStart < 0 then (0, 0, False) else (nat bestStart, bestAvg, True))"

definition mkCycle ::
  "Price list \<Rightarrow> nat \<Rightarrow> nat \<Rightarrow> float64 \<Rightarrow> nat \<Rightarrow> nat \<Rightarrow> float64 \<Rightarrow> float64 \<Rightarrow> TradeCycle" where
  \<comment> \<open>the \<^verbatim>\<open>TradeCycle{...}\<close> literal of findBestCycle\<close>
  "mkCycle prices chargeStart chargeWindowSize chargeAvg
           dischargeStart dischargeWindowSize dischargeAvg profit =
     \<lparr>ChargeWindow =
        \<lparr>Start = Time (prices ! chargeStart),
         End = Add (Time (prices ! (chargeStart + chargeWindowSize - 1))) (15 * Minute),
         Price = chargeAvg\<rparr>,
      DischargeWindow =
        \<lparr>Start = Time (prices ! dischargeStart),
         End = Add (Time (prices ! (dischargeStart + dischargeWindowSize - 1))) (15 * Minute),
         Price = dischargeAvg\<rparr>,
      Profit = profit\<rparr>"

definition cycleStep ::
  "Price list \<Rightarrow> nat \<Rightarrow> nat \<Rightarrow> float64 \<Rightarrow> float64 \<Rightarrow> nat
     \<Rightarrow> TradeCycle \<times> float64 \<times> bool \<Rightarrow> TradeCycle \<times> float64 \<times> bool" where
  \<comment> \<open>the body of the loop over \<^verbatim>\<open>chargeStart\<close> in findBestCycle, on the loop state
      \<^verbatim>\<open>(bestCycle, bestProfit, found)\<close>; \<^verbatim>\<open>continue\<close> leaves the state as it is\<close>
  "cycleStep prices chargeWindowSize dischargeWindowSize efficiency minSpread chargeStart st =
     (case st of (bestCycle, bestProfit, found) \<Rightarrow>
        let chargeAvg = windowAverage prices chargeStart chargeWindowSize;
            dischargeSearchStart = chargeStart + chargeWindowSize
        in if dischargeSearchStart + dischargeWindowSize > length prices then st
           else
             (case findBestWindow prices dischargeSearchStart dischargeWindowSize False of
                (dischargeStart, dischargeAvg, dischargeFound) \<Rightarrow>
                  if \<not> dischargeFound then st
                  else
                    let breakEvenPrice = fdiv chargeAvg efficiency
                    in if dischargeAvg \<le> breakEvenPrice
                          \<or> fsub dischargeAvg chargeAvg < minSpread
                       then st
                       else
                         let profit = fsub (fmul dischargeAvg efficiency) chargeAvg
                         in if profit > bestProfit
                            then (mkCycle prices chargeStart chargeWindowSize chargeAvg
                                    dischargeStart dischargeWindowSize dischargeAvg profit,
                                  profit, True)
                            else st))"

function cycleLoop ::
  "Price list \<Rightarrow> nat \<Rightarrow> nat \<Rightarrow> float64 \<Rightarrow> float64 \<Rightarrow> nat
     \<Rightarrow> TradeCycle \<times> float64 \<times> bool \<Rightarrow> TradeCycle \<times> bool" where
  \<comment> \<open>\<^verbatim>\<open>for chargeStart := startIdx; chargeStart+chargeWindowSize <= len(prices); chargeStart++\<close>\<close>
  "cycleLoop prices chargeWindowSize dischargeWindowSize efficiency minSpread chargeStart st =
     (if chargeStart + chargeWindowSize \<le> length prices
      then cycleLoop prices chargeWindowSize dischargeWindowSize efficiency minSpread
             (chargeStart + 1)
             (cycleStep prices chargeWindowSize dischargeWindowSize efficiency minSpread
                chargeStart st)
      else (case st of (bestCycle, bestProfit, found) \<Rightarrow> (bestCycle, found)))"
  by pat_completeness auto
termination
  by (relation "measure (\<lambda>(prices, cw, dw, eff, ms, chargeStart, st).
        length prices + 1 - chargeStart)") auto

definition findBestCycle ::
  "Price list \<Rightarrow> nat \<Rightarrow> nat \<Rightarrow> nat \<Rightarrow> float64 \<Rightarrow> float64 \<Rightarrow> TradeCycle \<times> bool" where
  "findBestCycle prices startIdx chargeWindowSize dischargeWindowSize efficiency minSpread =
     cycleLoop prices chargeWindowSize dischargeWindowSize efficiency minSpread startIdx
       (zeroCycle, - MaxFloat64, False)"

fun findSlotIndexFrom :: "Price list \<Rightarrow> Time \<Rightarrow> int \<Rightarrow> int" where
  "findSlotIndexFrom [] t i = - 1"
| "findSlotIndexFrom (p # ps) t i =
     (if \<not> Before (Time p) t then i else findSlotIndexFrom ps t (i + 1))"

definition findSlotIndex :: "Price list \<Rightarrow> Time \<Rightarrow> int" where
  "findSlotIndex prices t = findSlotIndexFrom prices t 0"

fun cyclesLoop ::
  "nat \<Rightarrow> Price list \<Rightarrow> nat \<Rightarrow> nat \<Rightarrow> nat \<Rightarrow> float64 \<Rightarrow> float64 \<Rightarrow> TradeCycle list" where
  \<comment> \<open>the loop \<^verbatim>\<open>for i := 0; i < maxCycles; i++\<close>; the first argument counts the
      iterations that remain, the result is the list the loop has appended\<close>
  "cyclesLoop 0 prices searchStartIdx cw dw efficiency minSpread = []"
| "cyclesLoop (Suc k) prices searchStartIdx cw dw efficiency minSpread =
     (case findBestCycle prices searchStartIdx cw dw efficiency minSpread of
        (cycle, found) \<Rightarrow>
          if \<not> found then []
          else
            let next = findSlotIndex prices (End (DischargeWindow cycle))
            in if next < 0 \<or> next \<ge> int (length prices) then [cycle]
               else cycle # cyclesLoop k prices (nat next) cw dw efficiency minSpread)"

definition usableCapacity :: "AnalyzerConfig \<Rightarrow> float64" where
  \<comment> \<open>\<^verbatim>\<open>cfg.BatteryCapacityKWh * (1.0 - cfg.BatteryMinSOC)\<close>\<close>
  "usableCapacity cfg = fmul (BatteryCapacityKWh cfg) (fsub 1 (BatteryMinSOC cfg))"

definition chargeWindowSize :: "AnalyzerConfig \<Rightarrow> int" where
  "chargeWindowSize cfg = calculateWindowSize (usableCapacity cfg) (ChargePowerW cfg)"

definition dischargeWindowSize :: "AnalyzerConfig \<Rightarrow> int" where
  "dischargeWindowSize cfg = calculateWindowSize (usableCapacity cfg) (DischargePowerW cfg)"

definition maxCycles :: "AnalyzerConfig \<Rightarrow> int" where
  \<comment> \<open>\<^verbatim>\<open>maxCycles := cfg.MaxCyclesPerDay; if maxCycles <= 0 { maxCycles = 2 }\<close>\<close>
  "maxCycles cfg = (if MaxCyclesPerDay cfg \<le> 0 then 2 else MaxCyclesPerDay cfg)"

definition AnalyzePrices :: "Price list \<Rightarrow> AnalyzerConfig \<Rightarrow> TradingPlan" where
  "AnalyzePrices prices cfg =
     (if length prices = 0 then zeroPlan
      else
        let sortedByTime = sortByTime prices;
            (minPrice, maxPrice) =
               minMaxLoop sortedByTime (Value (sortedByTime ! 0)) (Value (sortedByTime ! 0));
            spread = fsub maxPrice minPrice
        in if int (length sortedByTime) < chargeWindowSize cfg
              \<or> int (length sortedByTime) < dischargeWindowSize cfg
           then \<lparr>Date = localMidnight (Time (sortedByTime ! 0)),
                 ChargeWindows = [], DischargeWindows = [], Cycles = [],
                 MinPrice = minPrice, MaxPrice = maxPrice, Spread = spread,
                 IsProfitable = False\<rparr>
           else
             let cycles = cyclesLoop (nat (maxCycles cfg)) sortedByTime 0
                            (nat (chargeWindowSize cfg)) (nat (dischargeWindowSize cfg))
                            (Efficiency cfg) (MinPriceSpread cfg)
             in \<lparr>Date = localMidnight (Time (sortedByTime ! 0)),
                 ChargeWindows = map ChargeWindow cycles,
                 DischargeWindows = map DischargeWindow cycles,
                 Cycles = cycles,
                 MinPrice = minPrice, MaxPrice = maxPrice, Spread = spread,
                 IsProfitable = (length cycles > 0)\<rparr>)"

section \<open>The trade ledger (service/recorder.go)\<close>

definition FormatDate :: "Time \<Rightarrow> int" where
  \<comment> \<open>the calendar day that \<^verbatim>\<open>t.Format("2006-01-02")\<close> prints: the date of \<open>t\<close> in the
      location that \<open>t\<close> itself carries\<close>
  "FormatDate t = localNano t div (24 * Hour)"

definition RecordTrade :: "Recorder \<Rightarrow> Trade \<Rightarrow> Recorder" where
  \<comment> \<open>the write to disk fails at most with an error that the engine logs\<close>
  "RecordTrade r trade = r\<lparr>trades := trades r @ [trade]\<rparr>"

fun appendDay :: "int \<Rightarrow> Trade \<Rightarrow> (int \<times> Trade list) list \<Rightarrow> (int \<times> Trade list) list" where
  \<comment> \<open>\<^verbatim>\<open>dayTrades[dayKey] = append(dayTrades[dayKey], t)\<close>\<close>
  "appendDay k t [] = [(k, [t])]"
| "appendDay k t ((k', l) # m) =
     (if k' = k then (k', l @ [t]) # m else (k', l) # appendDay k t m)"

definition dayTradesOf :: "Trade list \<Rightarrow> (int \<times> Trade list) list" where
  \<comment> \<open>the map \<^verbatim>\<open>dayTrades\<close> after the grouping loop, its keys in the order of first use\<close>
  "dayTradesOf ts = fold (\<lambda>t m. appendDay (FormatDate (Timestamp t)) t m) ts []"

definition firstLastStep :: "Trade \<Rightarrow> Time \<times> Time \<Rightarrow> Time \<times> Time" where
  "firstLastStep t st =
     (case st of (firstTrade, lastTrade) \<Rightarrow>
        (if IsZero firstTrade \<or> Before (Timestamp t) firstTrade then Timestamp t else firstTrade,
         if IsZero lastTrade \<or> After (Timestamp t) lastTrade then Timestamp t else lastTrade))"

record DayTotals =
  chargedKWh :: Decimal
  dischargedKWh :: Decimal
  chargeCost :: Decimal
  dischargeRevenue :: Decimal
  chargeCycles :: int
  dischargeCycles :: int
  minChargePrice :: Decimal
  maxDischargePrice :: Decimal

definition zeroTotals :: DayTotals where
  "zeroTotals = \<lparr>chargedKWh = 0, dischargedKWh = 0, chargeCost = 0, dischargeRevenue = 0,
     chargeCycles = 0, dischargeCycles = 0, minChargePrice = 0, maxDischargePrice = 0\<rparr>"

definition dayStep :: "Trade \<Rightarrow> DayTotals \<Rightarrow> DayTotals" where
  \<comment> \<open>the body of the loop over one day's trades\<close>
  "dayStep t a =
     (case Action t of
        ActionCharge \<Rightarrow>
          a\<lparr>chargedKWh := chargedKWh a + EnergyKWh t,
            chargeCost := chargeCost a + PriceEUR t * EnergyKWh t,
            minChargePrice :=
              (if minChargePrice a = 0 \<or> PriceEUR t < minChargePrice a
               then PriceEUR t else minChargePrice a),
            chargeCycles := chargeCycles a + 1\<rparr>
      | ActionDischarge \<Rightarrow>
          a\<lparr>dischargedKWh := dischargedKWh a + EnergyKWh t,
            dischargeRevenue := dischargeRevenue a + PriceEUR t * EnergyKWh t,
            maxDischargePrice :=
              (if PriceEUR t > maxDischargePrice a then PriceEUR t else maxDischargePrice a),
            dischargeCycles := dischargeCycles a + 1\<rparr>
      | ActionOther x \<Rightarrow> a)"

definition daySummary :: "int \<Rightarrow> Trade list \<Rightarrow> DailySummary" where
  \<comment> \<open>one iteration of \<^verbatim>\<open>for dayKey, trades := range dayTrades\<close>; both calls of
      \<^verbatim>\<open>Div\<close> are guarded by \<^verbatim>\<open>!IsZero()\<close> and cannot panic\<close>
  "daySummary dayKey ts =
     (let a = fold dayStep ts zeroTotals;
          avgChargePrice =
            (if chargedKWh a \<noteq> 0
             then DivRound (chargeCost a) (chargedKWh a) DivisionPrecision else 0);
          avgDischargePrice =
            (if dischargedKWh a \<noteq> 0
             then DivRound (dischargeRevenue a) (dischargedKWh a) DivisionPrecision else 0);
          pnl = dischargeRevenue a - chargeCost a
      in \<lparr>DailySummary.Date = dayKey,
          ChargedKWh = chargedKWh a,
          DischargedKWh = dischargedKWh a,
          ChargeCycles = chargeCycles a,
          DischargeCycles = dischargeCycles a,
          PnLEUR = pnl,
          AvgChargePrice = avgChargePrice,
          MinChargePrice = minChargePrice a,
          AvgDischargePrice = avgDischargePrice,
          MaxDischargePrice = maxDischargePrice a,
          Trades = ts\<rparr>)"

fun swapPass :: "DailySummary \<Rightarrow> DailySummary list \<Rightarrow> DailySummary \<times> DailySummary list" where
  \<comment> \<open>the inner loop \<^verbatim>\<open>for j := i + 1; j < len(days); j++\<close> of the sort: \<open>x\<close> is
      \<^verbatim>\<open>days[i]\<close>, the list is \<^verbatim>\<open>days[i+1:]\<close>, and a later day is swapped into place\<close>
  "swapPass x [] = (x, [])"
| "swapPass x (y # ys) =
     (if DailySummary.Date y > DailySummary.Date x
      then (case swapPass y ys of (m, r) \<Rightarrow> (m, x # r))
      else (case swapPass x ys of (m, r) \<Rightarrow> (m, y # r)))"

lemma swapPass_length: "length (snd (swapPass x ys)) = length ys"
proof (induction ys arbitrary: x)
  case Nil
  show ?case by simp
next
  case (Cons y ys)
  from Cons.IH [of y] Cons.IH [of x] show ?case by (auto split: prod.splits)
qed

function sortDays :: "DailySummary list \<Rightarrow> DailySummary list" where
  \<comment> \<open>the outer loop: by date, latest first\<close>
  "sortDays [] = []"
| "sortDays (x # xs) = fst (swapPass x xs) # sortDays (snd (swapPass x xs))"
  by pat_completeness auto
termination
  by (relation "measure length") (auto simp: swapPass_length)

text \<open>
  Go visits the entries of a map in an order that it does not specify. \<open>GetHistory\<close>
  takes that order as its second argument: any arrangement of the entries of
  \<open>dayTradesOf (trades r)\<close>.
\<close>

definition GetHistory :: "Recorder \<Rightarrow> (int \<times> Trade list) list \<Rightarrow> History" where
  "GetHistory r visited =
     (if length (trades r) = 0
      then \<lparr>Days = [], TotalPnL = 0, TotalDays = 0, FirstTrade = None, LastTrade = None\<rparr>
      else
        let (firstTrade, lastTrade) = fold firstLastStep (trades r) (zeroTime, zeroTime);
            days = map (\<lambda>(dayKey, ts). daySummary dayKey ts) visited;
            totalPnL = fold (\<lambda>d total. total + PnLEUR d) days 0;
            sorted = sortDays days
        in \<lparr>Days = sorted, TotalPnL = totalPnL, TotalDays = int (length sorted),
            FirstTrade = Some firstTrade, LastTrade = Some lastTrade\<rparr>)"

definition GetTodaySummary :: "Recorder \<Rightarrow> (int \<times> Trade list) list \<Rightarrow> Time \<Rightarrow> DailySummary" where
  \<comment> \<open>the third argument is the reading of \<^verbatim>\<open>time.Now()\<close>\<close>
  "GetTodaySummary r visited timeNow =
     (let today = FormatDate (In timeNow (loc r))
      in case find (\<lambda>day. DailySummary.Date day = today) (Days (GetHistory r visited)) of
           Some day \<Rightarrow> day
         | None \<Rightarrow> \<lparr>DailySummary.Date = today, ChargedKWh = 0, DischargedKWh = 0,
                     ChargeCycles = 0, DischargeCycles = 0, PnLEUR = 0, AvgChargePrice = 0,
                     MinChargePrice = 0, AvgDischargePrice = 0, MaxDischargePrice = 0,
                     Trades = []\<rparr>)"

definition pnlStep :: "Trade \<Rightarrow> Decimal \<times> Decimal \<Rightarrow> Decimal \<times> Decimal" where
  "pnlStep t st =
     (case st of (totalRevenue, totalCost) \<Rightarrow>
        (case Action t of
           ActionCharge \<Rightarrow> (totalRevenue, totalCost + PriceEUR t * EnergyKWh t)
         | ActionDischarge \<Rightarrow> (totalRevenue + PriceEUR t * EnergyKWh t, totalCost)
         | ActionOther x \<Rightarrow> (totalRevenue, totalCost)))"

definition GetTotalPnL :: "Recorder \<Rightarrow> Decimal" where
  "GetTotalPnL r =
     (case fold pnlStep (trades r) (0, 0) of (totalRevenue, totalCost) \<Rightarrow>
        totalRevenue - totalCost)"

section \<open>The trading engine (service/service.go)\<close>

text \<open>
  One call of \<^verbatim>\<open>tick\<close> is a function from the engine's state and the answers of the
  world during that call to the new state and the commands sent to the battery, in the
  order sent. Logging and the Telegram notifications change nothing that is modelled and
  are left out; the lock is released around each call to the battery, and what other
  goroutines could do in between is outside the model. A panic of the decimal library
  (division by zero) is the result \<open>None\<close>.
\<close>

datatype State = StateIdle | StateCharging | StateDischarging

record BatteryStatus =
  SOC :: int
  ChargingFlag :: bool
  DischargFlag :: bool

datatype Command =
    Charge int int            \<comment> \<open>\<^verbatim>\<open>battery.Charge(powerW, timeoutS)\<close>\<close>
  | Discharge int int         \<comment> \<open>\<^verbatim>\<open>battery.Discharge(powerW, timeoutS)\<close>\<close>
  | SetPassiveMode int int    \<comment> \<open>\<^verbatim>\<open>battery.SetPassiveMode(power, cdTime)\<close>\<close>
  | Idle                      \<comment> \<open>\<^verbatim>\<open>battery.Idle()\<close>\<close>

record Service =
  cfg :: Config
  recorder :: Recorder
  loc :: int
  state :: State
  currentPlan :: "TradingPlan option"
  todayPrices :: "Price list"
  lastPassiveRefresh :: Time
  currentTradeStart :: Time
  currentTradePrice :: Decimal
  currentTradeSOC :: int
  lastChargePrice :: Decimal

record World =
  nowFunc :: "nat \<Rightarrow> Time"         \<comment> \<open>the readings of \<^verbatim>\<open>s.nowFunc()\<close> during the call, in order\<close>
  timeNow :: "nat \<Rightarrow> Time"         \<comment> \<open>the readings of \<^verbatim>\<open>time.Now()\<close> during the call, in order\<close>
  batteryStatus :: "BatteryStatus option"  \<comment> \<open>\<open>None\<close>: \<^verbatim>\<open>GetBatteryStatus\<close> fails\<close>
  chargeErr :: bool                \<comment> \<open>\<^verbatim>\<open>battery.Charge\<close> returns an error\<close>
  dischargeErr :: bool             \<comment> \<open>\<^verbatim>\<open>battery.Discharge\<close> returns an error\<close>
  passiveErr :: bool               \<comment> \<open>\<^verbatim>\<open>battery.SetPassiveMode\<close> returns an error\<close>

definition now :: "Service \<Rightarrow> World \<Rightarrow> nat \<Rightarrow> Time" where
  \<comment> \<open>the \<open>k\<close>-th call of \<^verbatim>\<open>s.now()\<close>: \<^verbatim>\<open>s.nowFunc().In(s.loc)\<close>\<close>
  "now s w k = In (nowFunc w k) (Service.loc s)"

definition int_of_float64 :: "float64 \<Rightarrow> int" where
  \<comment> \<open>the conversion \<^verbatim>\<open>int(x)\<close>, which drops the fraction\<close>
  "int_of_float64 x = (if 0 \<le> x then \<lfloor>x\<rfloor> else \<lceil>x\<rceil>)"


fun GetCurrentPrice :: "Price list \<Rightarrow> Time \<Rightarrow> float64 \<times> bool" where
  "GetCurrentPrice [] t = (0, False)"
| "GetCurrentPrice (p # ps) t =
     (if \<not> Before t (Time p) \<and> Before t (Add (Time p) (15 * Minute)) then (Value p, True)
      else GetCurrentPrice ps t)"

fun inWindows :: "TimeWindow list \<Rightarrow> Time \<Rightarrow> bool" where
  \<comment> \<open>the loop shared by IsInChargeWindow and IsInDischargeWindow\<close>
  "inWindows [] t = False"
| "inWindows (w # ws) t =
     (if \<not> Before t (Start w) \<and> Before t (End w) then True else inWindows ws t)"

definition IsInChargeWindow :: "TradingPlan \<Rightarrow> Time \<Rightarrow> bool" where
  "IsInChargeWindow p t = inWindows (ChargeWindows p) t"

definition IsInDischargeWindow :: "TradingPlan \<Rightarrow> Time \<Rightarrow> bool" where
  "IsInDischargeWindow p t = inWindows (DischargeWindows p) t"

definition ShouldTrade :: "TradingPlan \<Rightarrow> bool" where
  "ShouldTrade p \<longleftrightarrow>
     IsProfitable p \<and> (length (ChargeWindows p) > 0 \<or> length (DischargeWindows p) > 0)"

definition overlapStep :: "Time \<Rightarrow> Time \<Rightarrow> Price \<Rightarrow> float64 \<times> Duration \<Rightarrow> float64 \<times> Duration" where
  \<comment> \<open>the body of the loop of calculateAveragePrice, on \<^verbatim>\<open>(weightedSum, totalDuration)\<close>\<close>
  "overlapStep start endT p st =
     (case st of (weightedSum, totalDuration) \<Rightarrow>
        let slotEnd = Add (Time p) (15 * Minute)
        in if Before (Time p) endT \<and> After slotEnd start then
             let overlapStart = (if After start (Time p) then start else Time p);
                 overlapEnd = (if Before endT slotEnd then endT else slotEnd);
                 overlap = Sub overlapEnd overlapStart
             in if overlap > 0
                then (fadd weightedSum (fmul (Value p) (Seconds overlap)),
                      totalDuration + overlap)
                else st
           else st)"

definition calculateAveragePrice :: "Service \<Rightarrow> Time \<Rightarrow> Time \<Rightarrow> Decimal" where
  "calculateAveragePrice s start endT =
     (if length (todayPrices s) = 0 then 0
      else
        (case fold (overlapStep start endT) (todayPrices s) (0, 0) of
           (weightedSum, totalDuration) \<Rightarrow>
             if totalDuration = 0 then 0
             else NewFromFloat (fdiv weightedSum (Seconds totalDuration))))"

definition isDischargeProfitiable :: "Service \<Rightarrow> Decimal \<Rightarrow> bool option" where
  "isDischargeProfitiable s dischargePrice =
     (if lastChargePrice s = 0 then Some False
      else
        let efficiency = NewFromFloat (BatteryEfficiency (cfg s))
        in case Div (lastChargePrice s) efficiency of
             None \<Rightarrow> None
           | Some breakEvenPrice \<Rightarrow> Some (dischargePrice > breakEvenPrice))"

definition transitionToIdleLocked :: "Service \<Rightarrow> Service \<times> Command list" where
  \<comment> \<open>an error of \<^verbatim>\<open>battery.Idle()\<close> is logged only\<close>
  "transitionToIdleLocked s = (s\<lparr>state := StateIdle\<rparr>, [Idle])"

definition startChargingLocked ::
  "Service \<Rightarrow> World \<Rightarrow> Decimal \<Rightarrow> int \<Rightarrow> Service \<times> Command list" where
  "startChargingLocked s w price soc =
     (let cmd = Charge (Config.ChargePowerW (cfg s)) (PassiveModeTimeoutS (cfg s))
      in if chargeErr w then (s, [cmd])
         else (s\<lparr>state := StateCharging,
                 currentTradeStart := now s w 1,
                 currentTradePrice := price,
                 currentTradeSOC := soc,
                 lastPassiveRefresh := now s w 2,
                 lastChargePrice := price\<rparr>, [cmd]))"

definition stopChargingLocked :: "Service \<Rightarrow> World \<Rightarrow> int \<Rightarrow> Service \<times> Command list" where
  "stopChargingLocked s w endSOC =
     (let tnow = now s w 1;
          duration = Sub tnow (currentTradeStart s);
          energyKWh = NewFromFloat
             (fdiv (fmul (float64_of_int (Config.ChargePowerW (cfg s))) (Hours duration)) 1000);
          avgPrice0 = calculateAveragePrice s (currentTradeStart s) tnow;
          avgPrice = (if avgPrice0 = 0 then currentTradePrice s else avgPrice0);
          s1 = s\<lparr>lastChargePrice := avgPrice\<rparr>;
          trade = \<lparr>Timestamp = currentTradeStart s1,
                   Action = ActionCharge,
                   PriceEUR = avgPrice,
                   PowerW = Config.ChargePowerW (cfg s1),
                   DurationS = int_of_float64 (Seconds duration),
                   EnergyKWh = energyKWh,
                   StartSOC = currentTradeSOC s1,
                   EndSOC = endSOC\<rparr>;
          s2 = s1\<lparr>recorder := RecordTrade (recorder s1) trade\<rparr>
      in transitionToIdleLocked s2)"

definition startDischargingLocked ::
  "Service \<Rightarrow> World \<Rightarrow> Decimal \<Rightarrow> int \<Rightarrow> Service \<times> Command list" where
  "startDischargingLocked s w price soc =
     (let cmd = Discharge (Config.DischargePowerW (cfg s)) (PassiveModeTimeoutS (cfg s))
      in if dischargeErr w then (s, [cmd])
         else (s\<lparr>state := StateDischarging,
                 currentTradeStart := now s w 1,
                 currentTradePrice := price,
                 currentTradeSOC := soc,
                 lastPassiveRefresh := now s w 2\<rparr>, [cmd]))"

definition stopDischargingLocked :: "Service \<Rightarrow> World \<Rightarrow> int \<Rightarrow> Service \<times> Command list" where
  "stopDischargingLocked s w endSOC =
     (let duration = Sub (timeNow w 0) (currentTradeStart s);
          energyKWh = NewFromFloat
             (fdiv (fmul (float64_of_int (Config.DischargePowerW (cfg s))) (Hours duration)) 1000);
          trade = \<lparr>Timestamp = currentTradeStart s,
                   Action = ActionDischarge,
                   PriceEUR = currentTradePrice s,
                   PowerW = Config.DischargePowerW (cfg s),
                   DurationS = int_of_float64 (Seconds duration),
                   EnergyKWh = energyKWh,
                   StartSOC = currentTradeSOC s,
                   EndSOC = endSOC\<rparr>;
          s1 = s\<lparr>recorder := RecordTrade (recorder s) trade\<rparr>
      in transitionToIdleLocked s1)"

definition refreshPassiveModeLocked :: "Service \<Rightarrow> World \<Rightarrow> int \<Rightarrow> Service \<times> Command list" where
  "refreshPassiveModeLocked s w pw =
     (let refreshThreshold =
            int_of_float64 (fmul (float64_of_int (PassiveModeTimeoutS (cfg s))) (f64 (8 / 10)))
              * Second
      in if Sub (timeNow w 0) (lastPassiveRefresh s) < refreshThreshold then (s, [])
         else
           let cmd = SetPassiveMode pw (PassiveModeTimeoutS (cfg s))
           in if passiveErr w then (s, [cmd])
              else (s\<lparr>lastPassiveRefresh := timeNow w 1\<rparr>, [cmd]))"

definition minSOCPercent :: "Service \<Rightarrow> int" where
  \<comment> \<open>\<^verbatim>\<open>minSOC := int(s.cfg.BatteryMinSOC * 100)\<close>\<close>
  "minSOCPercent s = int_of_float64 (fmul (Config.BatteryMinSOC (cfg s)) 100)"

definition tickIdle ::
  "Service \<Rightarrow> World \<Rightarrow> BatteryStatus \<Rightarrow> Decimal \<Rightarrow> bool \<Rightarrow> bool
     \<Rightarrow> (Service \<times> Command list) option" where
  \<comment> \<open>\<^verbatim>\<open>case StateIdle\<close>\<close>
  "tickIdle s w batStatus currentPrice inChargeWindow inDischargeWindow =
     (if inChargeWindow then
        (if SOC batStatus \<ge> 100 then Some (s, [])
         else if \<not> ChargingFlag batStatus then Some (s, [])
         else Some (startChargingLocked s w currentPrice (SOC batStatus)))
      else if inDischargeWindow then
        (if SOC batStatus \<le> minSOCPercent s then Some (s, [])
         else if \<not> DischargFlag batStatus then Some (s, [])
         else
           (case isDischargeProfitiable s currentPrice of
              None \<Rightarrow> None
            | Some False \<Rightarrow>
                (case Div (lastChargePrice s) (NewFromFloat (BatteryEfficiency (cfg s))) of
                   None \<Rightarrow> None
                 | Some breakEven \<Rightarrow> Some (s, []))
            | Some True \<Rightarrow> Some (startDischargingLocked s w currentPrice (SOC batStatus))))
      else Some (s, []))"

definition tickCharging ::
  "Service \<Rightarrow> World \<Rightarrow> BatteryStatus \<Rightarrow> bool \<Rightarrow> Service \<times> Command list" where
  \<comment> \<open>\<^verbatim>\<open>case StateCharging\<close>\<close>
  "tickCharging s w batStatus inChargeWindow =
     (if \<not> inChargeWindow then stopChargingLocked s w (SOC batStatus)
      else if SOC batStatus \<ge> 100 then stopChargingLocked s w (SOC batStatus)
      else refreshPassiveModeLocked s w (- Config.ChargePowerW (cfg s)))"

definition tickDischarging ::
  "Service \<Rightarrow> World \<Rightarrow> BatteryStatus \<Rightarrow> bool \<Rightarrow> Service \<times> Command list" where
  \<comment> \<open>\<^verbatim>\<open>case StateDischarging\<close>\<close>
  "tickDischarging s w batStatus inDischargeWindow =
     (if \<not> inDischargeWindow then stopDischargingLocked s w (SOC batStatus)
      else if SOC batStatus \<le> minSOCPercent s then stopDischargingLocked s w (SOC batStatus)
      else refreshPassiveModeLocked s w (Config.DischargePowerW (cfg s)))"

definition tick :: "Service \<Rightarrow> World \<Rightarrow> (Service \<times> Command list) option" where
  "tick s w =
     (let tnow = now s w 0
      in case batteryStatus w of
           None \<Rightarrow> Some (s, [])
         | Some batStatus \<Rightarrow>
             (case currentPlan s of
                None \<Rightarrow>
                  if state s \<noteq> StateIdle then Some (transitionToIdleLocked s) else Some (s, [])
              | Some plan \<Rightarrow>
                  if \<not> ShouldTrade plan then
                    (if state s \<noteq> StateIdle then Some (transitionToIdleLocked s)
                     else Some (s, []))
                  else
                    (case GetCurrentPrice (todayPrices s) tnow of
                       (currentPriceF, ok) \<Rightarrow>
                         if \<not> ok then Some (s, [])
                         else
                           let currentPrice = NewFromFloat currentPriceF;
                               inChargeWindow = IsInChargeWindow plan tnow;
                               inDischargeWindow = IsInDischargeWindow plan tnow
                           in case state s of
                                StateIdle \<Rightarrow>
                                  tickIdle s w batStatus currentPrice
                                    inChargeWindow inDischargeWindow
                              | StateCharging \<Rightarrow>
                                  Some (tickCharging s w batStatus inChargeWindow)
                              | StateDischarging \<Rightarrow>
                                  Some (tickDischarging s w batStatus inDischargeWindow))))"

subsection \<open>Test data of the repository (service/analyzer_test.go)\<close>

definition makePrices :: "Time \<Rightarrow> float64 list \<Rightarrow> Price list" where
  "makePrices baseTime vals =
     map (\<lambda>(i, v). \<lparr>Time = Add baseTime (int i * (15 * Minute)), Value = v\<rparr>) (enumerate 0 vals)"

definition testBaseTime :: Time where
  \<comment> \<open>\<^verbatim>\<open>time.Date(2024, 1, 15, 0, 0, 0, 0, time.UTC)\<close>\<close>
  "testBaseTime = \<lparr>unixNano = 1705276800 * Second, zoneOffset = 0\<rparr>"

definition defaultTestConfig :: AnalyzerConfig where
  "defaultTestConfig = \<lparr>Efficiency = f64 (90 / 100), MinPriceSpread = f64 (5 / 100),
     BatteryCapacityKWh = f64 (512 / 100), BatteryMinSOC = f64 (11 / 100),
     ChargePowerW = 2500, DischargePowerW = 2500, MaxCyclesPerDay = 2\<rparr>"

definition smallWindowConfig :: AnalyzerConfig where
  "smallWindowConfig = \<lparr>Efficiency = f64 (90 / 100), MinPriceSpread = f64 (1 / 100),
     BatteryCapacityKWh = f64 (5 / 10), BatteryMinSOC = 0,
     ChargePowerW = 2000, DischargePowerW = 2000, MaxCyclesPerDay = 2\<rparr>"

subsection \<open>Notions used to state the properties of a plan\<close>

definition contiguousSlots :: "Price list \<Rightarrow> bool" where
  \<comment> \<open>the list is in time order and each point starts 15 minutes after the one before\<close>
  "contiguousSlots prices \<longleftrightarrow>
     list_all (\<lambda>i. unixNano (Time (prices ! i))
                     = unixNano (Time (prices ! 0)) + int i * (15 * Minute))
              [0 ..< length prices]"

fun chronological :: "int \<Rightarrow> TradeCycle list \<Rightarrow> bool" where
  \<comment> \<open>from the instant \<open>lo\<close> on, the windows of the cycles follow one another:
      charge start < charge end \<le> discharge start < discharge end \<le> next charge start\<close>
  "chronological lo [] = True"
| "chronological lo (c # cs) =
     (lo \<le> unixNano (Start (ChargeWindow c))
      \<and> unixNano (Start (ChargeWindow c)) < unixNano (End (ChargeWindow c))
      \<and> unixNano (End (ChargeWindow c)) \<le> unixNano (Start (DischargeWindow c))
      \<and> unixNano (Start (DischargeWindow c)) < unixNano (End (DischargeWindow c))
      \<and> chronological (unixNano (End (DischargeWindow c))) cs)"

definition exampleConfig :: "int \<Rightarrow> AnalyzerConfig" where
  \<comment> \<open>one-slot windows (0.5 kWh at 2000 W) and values that float64 represents exactly\<close>
  "exampleConfig n = \<lparr>Efficiency = 1 / 2, MinPriceSpread = 1,
     BatteryCapacityKWh = 1 / 2, BatteryMinSOC = 0,
     ChargePowerW = 2000, DischargePowerW = 2000, MaxCyclesPerDay = n\<rparr>"

subsection \<open>Notions used to state the properties of the ledger\<close>

definition tradesOfDay :: "Recorder \<Rightarrow> int \<Rightarrow> TradeAction \<Rightarrow> Trade list" where
  \<comment> \<open>the recorded trades of one action whose timestamp prints as the given day\<close>
  "tradesOfDay r day act =
     filter (\<lambda>t. FormatDate (Timestamp t) = day \<and> Action t = act) (trades r)"

definition energyOf :: "Trade list \<Rightarrow> Decimal" where
  "energyOf ts = (\<Sum>t\<leftarrow>ts. EnergyKWh t)"

definition valueOf :: "Trade list \<Rightarrow> Decimal" where
  \<comment> \<open>the sum of price times energy\<close>
  "valueOf ts = (\<Sum>t\<leftarrow>ts. PriceEUR t * EnergyKWh t)"

definition exampleTrade :: "int \<Rightarrow> int \<Rightarrow> TradeAction \<Rightarrow> Decimal \<Rightarrow> Decimal \<Rightarrow> Trade" where
  \<comment> \<open>a trade \<open>sec\<close> seconds after 2024-01-15 00:00 UTC whose timestamp carries the
      offset \<open>off\<close>\<close>
  "exampleTrade sec off act price energy =
     \<lparr>Timestamp = \<lparr>unixNano = (1705276800 + sec) * Second, zoneOffset = off\<rparr>,
      Action = act, PriceEUR = price, PowerW = 2500, DurationS = 3600,
      EnergyKWh = energy, StartSOC = 50, EndSOC = 60\<rparr>"

definition signedValue :: "Trade \<Rightarrow> Decimal" where
  \<comment> \<open>what one trade adds to the profit: revenue of a discharge, minus the cost of a charge\<close>
  "signedValue t =
     (case Action t of
        ActionCharge \<Rightarrow> - (PriceEUR t * EnergyKWh t)
      | ActionDischarge \<Rightarrow> PriceEUR t * EnergyKWh t
      | ActionOther x \<Rightarrow> 0)"

definition exampleLedger :: Recorder where
  \<comment> \<open>three trades on 2024-01-15 and two on 2024-01-16, location UTC\<close>
  "exampleLedger =
     \<lparr>trades = [exampleTrade 3600 0 ActionCharge (1 / 10) 1,
                 exampleTrade 7200 0 ActionCharge (2 / 10) 2,
                 exampleTrade 36000 0 ActionDischarge (4 / 10) 2,
                 exampleTrade 90000 0 ActionCharge (1 / 10) 1,
                 exampleTrade 126000 0 ActionDischarge (3 / 10) 1],
      loc = 0\<rparr>"

definition mixedZoneLedger :: Recorder where
  \<comment> \<open>location UTC; a charge at 2024-01-15 22:30 UTC whose timestamp carries the offset
      +02:00 and a discharge at 2024-01-15 21:00 UTC whose timestamp carries UTC\<close>
  "mixedZoneLedger =
     \<lparr>trades = [exampleTrade 81000 7200 ActionCharge (1 / 10) (5 / 2),
                 exampleTrade 75600 0 ActionDischarge (3 / 10) 2],
      loc = 0\<rparr>"

subsection \<open>Notions used to state the properties of the engine\<close>

definition overlap :: "Time \<Rightarrow> Time \<Rightarrow> Price \<Rightarrow> Duration" where
  \<comment> \<open>how long the 15-minute slot of a price point lies inside the interval from
      \<open>start\<close> to \<open>endT\<close>\<close>
  "overlap start endT p =
     max 0 (min (unixNano endT) (unixNano (Time p) + 15 * Minute)
            - max (unixNano start) (unixNano (Time p)))"


definition timeWeightedMean :: "Price list \<Rightarrow> Time \<Rightarrow> Time \<Rightarrow> rat" where
  \<comment> \<open>the same average in exact arithmetic: every price point weighted by the overlap of
      its slot with the interval\<close>
  "timeWeightedMean ps start endT =
     (\<Sum>p\<leftarrow>ps. Value p * of_int (overlap start endT p))
       / of_int (\<Sum>p\<leftarrow>ps. overlap start endT p)"







definition newService :: "Config \<Rightarrow> Service" where
  \<comment> \<open>the engine as \<^verbatim>\<open>New\<close> returns it, with location UTC and an empty ledger\<close>
  "newService c =
     \<lparr>cfg = c, recorder = \<lparr>trades = [], loc = 0\<rparr>, loc = 0, state = StateIdle,
      currentPlan = None, todayPrices = [], lastPassiveRefresh = zeroTime,
      currentTradeStart = zeroTime, currentTradePrice = 0, currentTradeSOC = 0,
      lastChargePrice = 0\<rparr>"

definition testConfig :: Config where
  \<comment> \<open>\<^verbatim>\<open>testConfig()\<close> of the engine's tests\<close>
  "testConfig =
     \<lparr>Config.MinPriceSpread = f64 (5 / 100), BatteryEfficiency = f64 (90 / 100),
      Config.BatteryCapacityKWh = f64 (512 / 100), Config.BatteryMinSOC = f64 (11 / 100),
      Config.MaxCyclesPerDay = 2, Config.ChargePowerW = 2500, Config.DischargePowerW = 2500,
      PassiveModeTimeoutS = 300\<rparr>"

definition atMinute :: "int \<Rightarrow> Time" where
  \<comment> \<open>so many minutes after 2024-01-15 00:00 UTC\<close>
  "atMinute m = Add testBaseTime (m * Minute)"

definition examplePlan :: TradingPlan where
  \<comment> \<open>charge in the first quarter of an hour, discharge in the second\<close>
  "examplePlan =
     \<lparr>Date = testBaseTime,
      ChargeWindows = [\<lparr>Start = atMinute 0, End = atMinute 15, Price = 1\<rparr>],
      DischargeWindows = [\<lparr>Start = atMinute 15, End = atMinute 30, Price = 8\<rparr>],
      Cycles = [\<lparr>ChargeWindow = \<lparr>Start = atMinute 0, End = atMinute 15, Price = 1\<rparr>,
                 DischargeWindow = \<lparr>Start = atMinute 15, End = atMinute 30, Price = 8\<rparr>,
                 Profit = 3\<rparr>],
      MinPrice = 1, MaxPrice = 8, Spread = 7, IsProfitable = True\<rparr>"

definition exampleEngine :: "State \<Rightarrow> Service" where
  \<comment> \<open>an engine in the given state with \<open>examplePlan\<close>, the two prices it was made
      from, a session begun at 00:02 at the price 1, and the cost basis 1\<close>
  "exampleEngine st =
     (newService testConfig)
       \<lparr>state := st, currentPlan := Some examplePlan,
        todayPrices := makePrices testBaseTime [1, 8],
        lastPassiveRefresh := atMinute 2, currentTradeStart := atMinute 2,
        currentTradePrice := 1, currentTradeSOC := 50, lastChargePrice := 1\<rparr>"

definition exampleWorld :: "Time \<Rightarrow> int \<Rightarrow> World" where
  \<comment> \<open>every clock reads \<open>t\<close>, the battery reports the given SOC with both flags set,
      and every command succeeds\<close>
  "exampleWorld t soc =
     \<lparr>nowFunc = (\<lambda>k. t), timeNow = (\<lambda>k. t),
      batteryStatus = Some \<lparr>SOC = soc, ChargingFlag = True, DischargFlag = True\<rparr>,
      chargeErr = False, dischargeErr = False, passiveErr = False\<rparr>"






definition zeroMeanEngine :: Service where
  \<comment> \<open>the engine is Charging since 00:10 at the price -0.25; the next slot costs 0.25\<close>
  "zeroMeanEngine =
     (exampleEngine StateCharging)
       \<lparr>todayPrices := makePrices testBaseTime [- (1 / 4), 1 / 4],
        lastPassiveRefresh := atMinute 10, currentTradeStart := atMinute 10,
        currentTradePrice := - (1 / 4), lastChargePrice := - (1 / 4)\<rparr>"

definition boundaryConfig :: AnalyzerConfig where
  \<comment> \<open>6 kWh, min-SOC 0.2, 2400 W: the usable 4.8 kWh take exactly two hours\<close>
  "boundaryConfig = \<lparr>Efficiency = f64 (90 / 100), MinPriceSpread = f64 (5 / 100),
     BatteryCapacityKWh = 6, BatteryMinSOC = f64 (2 / 10),
     ChargePowerW = 2400, DischargePowerW = 2400, MaxCyclesPerDay = 2\<rparr>"

subsection \<open>Notions used to state the properties of the cycle search\<close>

fun slidingSum :: "Price list \<Rightarrow> nat \<Rightarrow> nat \<Rightarrow> nat \<Rightarrow> float64" where
  \<comment> \<open>the running sum that findBestWindow holds for the window \<open>k\<close> places after
      \<open>startIdx\<close>: the sum of the first window, then one price taken off and one added
      for every place the window moves\<close>
  "slidingSum prices windowSize startIdx 0 = windowSum prices startIdx windowSize"
| "slidingSum prices windowSize startIdx (Suc k) =
     fadd (fsub (slidingSum prices windowSize startIdx k) (Value (prices ! (startIdx + k))))
          (Value (prices ! (startIdx + k + windowSize)))"

definition slidingAverage :: "Price list \<Rightarrow> nat \<Rightarrow> nat \<Rightarrow> nat \<Rightarrow> float64" where
  "slidingAverage prices windowSize startIdx k =
     fdiv (slidingSum prices windowSize startIdx k) (float64_of_int (int windowSize))"

definition highestWindow :: "Price list \<Rightarrow> nat \<Rightarrow> nat \<Rightarrow> nat \<Rightarrow> bool" where
  \<comment> \<open>among the windows that start at \<open>startIdx\<close> or later, the one \<open>k\<close> places after
      \<open>startIdx\<close> has the highest average, above \<^verbatim>\<open>-math.MaxFloat64\<close>, and is the leftmost
      such window\<close>
  "highestWindow prices windowSize startIdx k \<longleftrightarrow>
     startIdx + k + windowSize \<le> length prices
     \<and> - MaxFloat64 < slidingAverage prices windowSize startIdx k
     \<and> (\<forall>j \<in> set [0 ..< length prices + 1 - (startIdx + windowSize)].
           slidingAverage prices windowSize startIdx j
             \<le> slidingAverage prices windowSize startIdx k)
     \<and> (\<forall>j \<in> set [0 ..< k].
           slidingAverage prices windowSize startIdx j
             < slidingAverage prices windowSize startIdx k)"

definition qualifies :: "float64 \<Rightarrow> float64 \<Rightarrow> float64 \<Rightarrow> float64 \<Rightarrow> bool" where
  \<comment> \<open>discharge mean above charge mean / efficiency, and a spread of at least the minimum\<close>
  "qualifies chargeMean dischargeMean efficiency minSpread \<longleftrightarrow>
     dischargeMean > fdiv chargeMean efficiency
     \<and> fsub dischargeMean chargeMean \<ge> minSpread"

definition candidateAt ::
  "Price list \<Rightarrow> nat \<Rightarrow> nat \<Rightarrow> float64 \<Rightarrow> float64 \<Rightarrow> nat \<Rightarrow> nat \<Rightarrow> bool" where
  \<comment> \<open>the charge window at \<open>c\<close> and the discharge window \<open>k\<close> places after its end are a
      qualifying pair: the discharge window is the highest one after the charge window\<close>
  "candidateAt prices cw dw efficiency minSpread c k \<longleftrightarrow>
     highestWindow prices dw (c + cw) k
     \<and> qualifies (windowAverage prices c cw) (slidingAverage prices dw (c + cw) k)
                 efficiency minSpread"

definition profitAt :: "Price list \<Rightarrow> nat \<Rightarrow> nat \<Rightarrow> float64 \<Rightarrow> nat \<Rightarrow> nat \<Rightarrow> float64" where
  \<comment> \<open>discharge mean times efficiency, less the charge mean\<close>
  "profitAt prices cw dw efficiency c k =
     fsub (fmul (slidingAverage prices dw (c + cw) k) efficiency) (windowAverage prices c cw)"

definition cycleAt :: "Price list \<Rightarrow> nat \<Rightarrow> nat \<Rightarrow> float64 \<Rightarrow> nat \<Rightarrow> nat \<Rightarrow> TradeCycle" where
  "cycleAt prices cw dw efficiency c k =
     mkCycle prices c cw (windowAverage prices c cw)
       (c + cw + k) dw (slidingAverage prices dw (c + cw) k)
       (profitAt prices cw dw efficiency c k)"

definition bestWindowSoFar ::
  "Price list \<Rightarrow> nat \<Rightarrow> nat \<Rightarrow> nat \<Rightarrow> int \<Rightarrow> float64 \<Rightarrow> bool" where
  \<comment> \<open>what \<^verbatim>\<open>bestStart\<close> and \<^verbatim>\<open>bestAvg\<close> hold once the windows up to \<open>k\<close> places after
      \<open>startIdx\<close> have been compared\<close>
  "bestWindowSoFar prices windowSize startIdx k bestStart bestAvg \<longleftrightarrow>
     (bestStart = - 1 \<and> bestAvg = - MaxFloat64
      \<and> (\<forall>j \<le> k. slidingAverage prices windowSize startIdx j \<le> - MaxFloat64))
     \<or> (\<exists>b \<le> k. bestStart = int (startIdx + b)
           \<and> bestAvg = slidingAverage prices windowSize startIdx b
           \<and> - MaxFloat64 < bestAvg
           \<and> (\<forall>j \<le> k. slidingAverage prices windowSize startIdx j \<le> bestAvg)
           \<and> (\<forall>j < b. slidingAverage prices windowSize startIdx j < bestAvg))"

definition bestCycleSoFar ::
  "Price list \<Rightarrow> nat \<Rightarrow> nat \<Rightarrow> float64 \<Rightarrow> float64 \<Rightarrow> nat \<Rightarrow> nat
     \<Rightarrow> TradeCycle \<times> float64 \<times> bool \<Rightarrow> bool" where
  \<comment> \<open>what \<^verbatim>\<open>bestCycle\<close>, \<^verbatim>\<open>bestProfit\<close> and \<^verbatim>\<open>found\<close> hold once the charge windows from
      \<open>s\<close> up to \<open>i\<close>, \<open>i\<close> left out, have been evaluated\<close>
  "bestCycleSoFar prices cw dw efficiency minSpread s i st \<longleftrightarrow>
     (case st of (bestCycle, bestProfit, found) \<Rightarrow>
        (\<not> found \<and> bestCycle = zeroCycle \<and> bestProfit = - MaxFloat64
         \<and> (\<forall>c k. s \<le> c \<and> c < i \<and> candidateAt prices cw dw efficiency minSpread c k
               \<longrightarrow> profitAt prices cw dw efficiency c k \<le> - MaxFloat64))
        \<or> (found \<and> - MaxFloat64 < bestProfit
            \<and> (\<exists>c k. s \<le> c \<and> c < i \<and> candidateAt prices cw dw efficiency minSpread c k
                  \<and> bestCycle = cycleAt prices cw dw efficiency c k
                  \<and> bestProfit = profitAt prices cw dw efficiency c k
                  \<and> (\<forall>c' k'. s \<le> c' \<and> c' < i
                         \<and> candidateAt prices cw dw efficiency minSpread c' k'
                       \<longrightarrow> profitAt prices cw dw efficiency c' k' \<le> bestProfit)
                  \<and> (\<forall>c' k'. s \<le> c' \<and> c' < c
                         \<and> candidateAt prices cw dw efficiency minSpread c' k'
                       \<longrightarrow> profitAt prices cw dw efficiency c' k' < bestProfit))))"

definition tiePrices :: "Price list" where
  \<comment> \<open>two equally good pairs: charge at 1 and discharge at 8, twice\<close>
  "tiePrices = makePrices testBaseTime [1, 8, 1, 8]"

definition edgePrices :: "Price list" where
  \<comment> \<open>0.117 and 0.130 EUR/kWh: the quotient 0.117 / 0.9 rounds to the float64 of 0.130\<close>
  "edgePrices = makePrices testBaseTime [f64 (117 / 1000), f64 (130 / 1000)]"

definition edgeConfig :: AnalyzerConfig where
  \<comment> \<open>a quarter of a kWh at 1000 W: windows of one slot\<close>
  "edgeConfig = \<lparr>Efficiency = f64 (90 / 100), MinPriceSpread = f64 (1 / 100),
     BatteryCapacityKWh = 1 / 4, BatteryMinSOC = 0,
     ChargePowerW = 1000, DischargePowerW = 1000, MaxCyclesPerDay = 2\<rparr>"

(*DEFS-END*)

section \<open>Properties of the analyzer\<close>

subsection \<open>Minimum, maximum and the short-input plan\<close>

lemma minMaxLoop_eq:
  "minMaxLoop ps mn mx = (Min (insert mn (Value ` set ps)), Max (insert mx (Value ` set ps)))"
proof (induction ps arbitrary: mn mx)
  case Nil
  show ?case by simp
next
  case (Cons p ps)
  have fin: "finite (Value ` set ps)" by simp
  have a: "Min (insert (if Value p < mn then Value p else mn) (Value ` set ps))
           = Min (insert mn (insert (Value p) (Value ` set ps)))"
    using fin by (cases "Value ` set ps = {}") (auto simp: min_def)
  have b: "Max (insert (if mx < Value p then Value p else mx) (Value ` set ps))
           = Max (insert mx (insert (Value p) (Value ` set ps)))"
    using fin by (cases "Value ` set ps = {}") (auto simp: max_def)
  show ?case using Cons.IH a b by simp
qed

lemma sortByTime_set: "set (sortByTime prices) = set prices"
  by (simp add: sortByTime_def)

lemma sortByTime_length: "length (sortByTime prices) = length prices"
  by (simp add: sortByTime_def)

lemma AnalyzePrices_short:
  assumes ne: "prices \<noteq> []"
    and short: "int (length prices) < chargeWindowSize conf
                \<or> int (length prices) < dischargeWindowSize conf"
  shows "AnalyzePrices prices conf =
     \<lparr>Date = localMidnight (Time (hd (sortByTime prices))),
      ChargeWindows = [], DischargeWindows = [], Cycles = [],
      MinPrice = Min (Value ` set prices), MaxPrice = Max (Value ` set prices),
      Spread = fsub (Max (Value ` set prices)) (Min (Value ` set prices)),
      IsProfitable = False\<rparr>"
proof -
  let ?s = "sortByTime prices"
  have sne: "?s \<noteq> []" using ne sortByTime_length [of prices] by auto
  then have h0: "?s ! 0 = hd ?s" by (simp add: hd_conv_nth)
  have mem: "Value (hd ?s) \<in> Value ` set prices"
    using sne sortByTime_set [of prices] by (metis hd_in_set imageI)
  have mm: "minMaxLoop ?s (Value (hd ?s)) (Value (hd ?s))
            = (Min (Value ` set prices), Max (Value ` set prices))"
    using mem by (simp add: minMaxLoop_eq sortByTime_set insert_absorb)
  show ?thesis
    using ne short by (simp add: AnalyzePrices_def Let_def h0 mm sortByTime_length)
qed

text \<open>
  C6. A non-empty price list with fewer points than the charge or the discharge window
  needs yields a plan that carries the local midnight of the earliest price point and the
  minimum, maximum and spread of the input, with no windows, no cycles and
  \<open>IsProfitable = False\<close>. For every input, \<open>IsProfitable\<close> holds exactly when the
  plan has at least one cycle.
\<close>

theorem AnalyzePrices_insufficient_data:
  "(prices \<noteq> [] \<and> (int (length prices) < chargeWindowSize conf
                    \<or> int (length prices) < dischargeWindowSize conf)
    \<longrightarrow> AnalyzePrices prices conf =
          \<lparr>Date = localMidnight (Time (hd (sortByTime prices))),
           ChargeWindows = [], DischargeWindows = [], Cycles = [],
           MinPrice = Min (Value ` set prices), MaxPrice = Max (Value ` set prices),
           Spread = fsub (Max (Value ` set prices)) (Min (Value ` set prices)),
           IsProfitable = False\<rparr>)
   \<and> (IsProfitable (AnalyzePrices prices conf) \<longleftrightarrow> Cycles (AnalyzePrices prices conf) \<noteq> [])"
proof (intro conjI impI)
  assume "prices \<noteq> [] \<and> (int (length prices) < chargeWindowSize conf
                    \<or> int (length prices) < dischargeWindowSize conf)"
  then show "AnalyzePrices prices conf =
          \<lparr>Date = localMidnight (Time (hd (sortByTime prices))),
           ChargeWindows = [], DischargeWindows = [], Cycles = [],
           MinPrice = Min (Value ` set prices), MaxPrice = Max (Value ` set prices),
           Spread = fsub (Max (Value ` set prices)) (Min (Value ` set prices)),
           IsProfitable = False\<rparr>"
    using AnalyzePrices_short by blast
next
  show "IsProfitable (AnalyzePrices prices conf) \<longleftrightarrow> Cycles (AnalyzePrices prices conf) \<noteq> []"
    by (simp add: AnalyzePrices_def Let_def zeroPlan_def split: prod.splits)
qed

theorem AnalyzePrices_insufficient_data_witness:
  "makePrices testBaseTime [f64 (5/100), f64 (6/100), f64 (15/100), f64 (20/100)] \<noteq> []
   \<and> int (length (makePrices testBaseTime [f64 (5/100), f64 (6/100), f64 (15/100), f64 (20/100)]))
       < chargeWindowSize defaultTestConfig
   \<and> AnalyzePrices (makePrices testBaseTime [f64 (5/100), f64 (6/100), f64 (15/100), f64 (20/100)])
        defaultTestConfig =
       \<lparr>Date = testBaseTime, ChargeWindows = [], DischargeWindows = [], Cycles = [],
        MinPrice = f64 (5/100), MaxPrice = f64 (20/100),
        Spread = fsub (f64 (20/100)) (f64 (5/100)), IsProfitable = False\<rparr>"
proof -
  let ?ps = "makePrices testBaseTime [f64 (5/100), f64 (6/100), f64 (15/100), f64 (20/100)]"
  have h: "?ps \<noteq> [] \<and> int (length ?ps) < chargeWindowSize defaultTestConfig"
    by code_simp
  have mn: "Min (Value ` set ?ps) = f64 (5/100)" by code_simp
  have mx: "Max (Value ` set ?ps) = f64 (20/100)" by code_simp
  have d: "localMidnight (Time (hd (sortByTime ?ps))) = testBaseTime" by code_simp
  from AnalyzePrices_insufficient_data [of ?ps defaultTestConfig] h
  have "AnalyzePrices ?ps defaultTestConfig =
          \<lparr>Date = localMidnight (Time (hd (sortByTime ?ps))),
           ChargeWindows = [], DischargeWindows = [], Cycles = [],
           MinPrice = Min (Value ` set ?ps), MaxPrice = Max (Value ` set ?ps),
           Spread = fsub (Max (Value ` set ?ps)) (Min (Value ` set ?ps)),
           IsProfitable = False\<rparr>"
    by blast
  then show ?thesis using h by (simp only: mn mx d simp_thms)
qed

text \<open>
  C10. For the empty price list the analyzer returns the zero-value plan: zero date, no
  windows, no cycles, minimum, maximum and spread \<open>0\<close>, not profitable; the function has
  no error result. A non-empty list that is too short for a window gives a plan of another
  shape: its date is the local midnight of the earliest price point and its minimum,
  maximum and spread are those of the input.
\<close>

theorem AnalyzePrices_empty_input:
  "AnalyzePrices [] conf =
     \<lparr>Date = zeroTime, ChargeWindows = [], DischargeWindows = [], Cycles = [],
      MinPrice = 0, MaxPrice = 0, Spread = 0, IsProfitable = False\<rparr>
   \<and> (prices \<noteq> [] \<and> (int (length prices) < chargeWindowSize conf
                      \<or> int (length prices) < dischargeWindowSize conf)
      \<longrightarrow> Date (AnalyzePrices prices conf) = localMidnight (Time (hd (sortByTime prices)))
          \<and> MinPrice (AnalyzePrices prices conf) = Min (Value ` set prices)
          \<and> MaxPrice (AnalyzePrices prices conf) = Max (Value ` set prices)
          \<and> Spread (AnalyzePrices prices conf)
              = fsub (Max (Value ` set prices)) (Min (Value ` set prices)))"
proof (intro conjI impI)
  show "AnalyzePrices [] conf =
     \<lparr>Date = zeroTime, ChargeWindows = [], DischargeWindows = [], Cycles = [],
      MinPrice = 0, MaxPrice = 0, Spread = 0, IsProfitable = False\<rparr>"
    by (simp add: AnalyzePrices_def zeroPlan_def)
next
  assume a: "prices \<noteq> [] \<and> (int (length prices) < chargeWindowSize conf
                      \<or> int (length prices) < dischargeWindowSize conf)"
  have p: "AnalyzePrices prices conf =
     \<lparr>Date = localMidnight (Time (hd (sortByTime prices))),
      ChargeWindows = [], DischargeWindows = [], Cycles = [],
      MinPrice = Min (Value ` set prices), MaxPrice = Max (Value ` set prices),
      Spread = fsub (Max (Value ` set prices)) (Min (Value ` set prices)),
      IsProfitable = False\<rparr>"
    using a AnalyzePrices_short by blast
  show "Date (AnalyzePrices prices conf) = localMidnight (Time (hd (sortByTime prices)))"
    by (simp add: p)
  show "MinPrice (AnalyzePrices prices conf) = Min (Value ` set prices)"
    by (simp add: p)
  show "MaxPrice (AnalyzePrices prices conf) = Max (Value ` set prices)"
    by (simp add: p)
  show "Spread (AnalyzePrices prices conf)
          = fsub (Max (Value ` set prices)) (Min (Value ` set prices))"
    by (simp add: p)
qed

theorem AnalyzePrices_empty_input_witness:
  "AnalyzePrices [] defaultTestConfig = zeroPlan
   \<and> makePrices testBaseTime [f64 (5/100), f64 (6/100)] \<noteq> []
   \<and> int (length (makePrices testBaseTime [f64 (5/100), f64 (6/100)]))
       < chargeWindowSize defaultTestConfig
   \<and> Date (AnalyzePrices (makePrices testBaseTime [f64 (5/100), f64 (6/100)]) defaultTestConfig)
       = testBaseTime
   \<and> MinPrice (AnalyzePrices (makePrices testBaseTime [f64 (5/100), f64 (6/100)]) defaultTestConfig)
       = f64 (5/100)
   \<and> testBaseTime \<noteq> zeroTime"
proof -
  let ?ps = "makePrices testBaseTime [f64 (5/100), f64 (6/100)]"
  have h: "?ps \<noteq> [] \<and> int (length ?ps) < chargeWindowSize defaultTestConfig"
    by code_simp
  have mn: "Min (Value ` set ?ps) = f64 (5/100)" by code_simp
  have d: "localMidnight (Time (hd (sortByTime ?ps))) = testBaseTime" by code_simp
  have z: "testBaseTime \<noteq> zeroTime" by code_simp
  from AnalyzePrices_empty_input [of defaultTestConfig ?ps] h
  have "AnalyzePrices [] defaultTestConfig = zeroPlan
        \<and> Date (AnalyzePrices ?ps defaultTestConfig) = localMidnight (Time (hd (sortByTime ?ps)))
        \<and> MinPrice (AnalyzePrices ?ps defaultTestConfig) = Min (Value ` set ?ps)"
    by (simp add: zeroPlan_def)
  then show ?thesis using h z by (simp only: mn d simp_thms)
qed

subsection \<open>Window sizing\<close>

text \<open>
  C5, at a failing input. The claim asks for
  \<open>ceil(usableCapacity / power_kW * 4)\<close> slots with
  \<open>usableCapacity = capacity * (1 - min-SOC)\<close>. For 6 kWh, min-SOC 0.2 and 2400 W that
  is \<open>ceil(4.8 / 2.4 * 4) = 8\<close>. The code computes in float64:
  \<open>1 - 0.2\<close> and the products and the quotient are rounded, \<open>hours * 4\<close> comes out one
  unit in the last place above 8, and the ceiling is 9. The two instances that the claim
  names are far from such a boundary and come out as stated, 8 and 9.
\<close>

theorem calculateWindowSize_rounding_at_boundary:
  "chargeWindowSize boundaryConfig = 9
   \<and> dischargeWindowSize boundaryConfig = 9
   \<and> fmul (fdiv (usableCapacity boundaryConfig) (fdiv (float64_of_int 2400) 1000)) 4
       = 8 + 1 / 2 ^ 49
   \<and> \<lceil>(6 * (1 - 2 / 10)) / (2400 / 1000) * (4 :: rat)\<rceil> = 8
   \<and> calculateWindowSize (fmul (f64 (512 / 100)) (fsub 1 (f64 (11 / 100)))) 2500 = 8
   \<and> calculateWindowSize (f64 (512 / 100)) 2500 = 9"
proof (intro conjI)
  show "chargeWindowSize boundaryConfig = 9" by code_simp
  show "dischargeWindowSize boundaryConfig = 9" by code_simp
  show "fmul (fdiv (usableCapacity boundaryConfig) (fdiv (float64_of_int 2400) 1000)) 4
          = 8 + 1 / 2 ^ 49"
    by code_simp
  show "\<lceil>(6 * (1 - 2 / 10)) / (2400 / 1000) * (4 :: rat)\<rceil> = 8" by simp
  show "calculateWindowSize (fmul (f64 (512 / 100)) (fsub 1 (f64 (11 / 100)))) 2500 = 8"
    by code_simp
  show "calculateWindowSize (f64 (512 / 100)) 2500 = 9"
    by code_simp
qed

subsection \<open>Where the search places its windows\<close>

lemma slideLoop_bounds:
  "slideLoop prices ws fl i wsum bs ba = (r, ra)
   \<Longrightarrow> r = bs \<or> (int i \<le> r \<and> r + int ws \<le> int (length prices))"
proof (induction prices ws fl i wsum bs ba rule: slideLoop.induct)
  case (1 prices ws fl i wsum bs ba)
  show ?case
  proof (cases "i + ws \<le> length prices")
    case False
    then have "slideLoop prices ws fl i wsum bs ba = (bs, ba)"
      by (subst slideLoop.simps) (simp only: if_False)
    with "1.prems" show ?thesis by simp
  next
    case True
    let ?w = "fadd (fsub wsum (Value (prices ! (i - 1)))) (Value (prices ! (i + ws - 1)))"
    let ?a = "fdiv ?w (float64_of_int (int ws))"
    let ?c = "if fl then ?a < ba else ?a > ba"
    let ?A = "slideLoop prices ws fl (i + 1) ?w (int i) ?a"
    let ?B = "slideLoop prices ws fl (i + 1) ?w bs ba"
    have step: "slideLoop prices ws fl i wsum bs ba = (if ?c then ?A else ?B)"
      by (subst slideLoop.simps) (simp only: True if_True Let_def)
    show ?thesis
    proof (cases ?c)
      case better: True
      have sel: "(if ?c then ?A else ?B) = ?A" by (rule if_P [OF better])
      have "?A = (r, ra)" using "1.prems" unfolding step sel .
      from "1.IH"(1) [OF True refl refl better this] True show ?thesis by auto
    next
      case worse: False
      have sel: "(if ?c then ?A else ?B) = ?B" by (rule if_not_P [OF worse])
      have "?B = (r, ra)" using "1.prems" unfolding step sel .
      from "1.IH"(2) [OF True refl refl worse this] show ?thesis by auto
    qed
  qed
qed

lemma findBestWindow_bounds:
  assumes "findBestWindow prices s ws fl = (d, a, True)"
  shows "s \<le> d \<and> d + ws \<le> length prices"
proof -
  from assms have le: "s + ws \<le> length prices"
    by (auto simp: findBestWindow_def split: if_splits)
  let ?b0 = "if fl then MaxFloat64 else - MaxFloat64"
  let ?w = "windowSum prices s ws"
  let ?avg = "fdiv ?w (float64_of_int (int ws))"
  let ?first = "if fl then ?avg < ?b0 else ?avg > ?b0"
  obtain r ra where sl: "slideLoop prices ws fl (s + 1) ?w
                 (if ?first then int s else - 1) (if ?first then ?avg else ?b0) = (r, ra)"
    by (cases "slideLoop prices ws fl (s + 1) ?w
                 (if ?first then int s else - 1) (if ?first then ?avg else ?b0)") auto
  from assms le sl have r: "0 \<le> r" "d = nat r"
    by (auto simp: findBestWindow_def Let_def split: if_splits)
  from slideLoop_bounds [OF sl] r le show ?thesis by (auto split: if_splits)
qed


lemma cycleStep_cases:
  assumes "cycleStep prices cw dw eff ms cs st = st'"
  shows "st' = st \<or> (\<exists>ds ca da pr. cs + cw \<le> ds \<and> ds + dw \<le> length prices
            \<and> st' = (mkCycle prices cs cw ca ds dw da pr, pr, True))"
proof -
  obtain bc bp fnd where st: "st = (bc, bp, fnd)" by (cases st) auto
  obtain ds da df where fb: "findBestWindow prices (cs + cw) dw False = (ds, da, df)"
    by (cases "findBestWindow prices (cs + cw) dw False") auto
  show ?thesis
  proof (cases df)
    case False
    with assms st fb show ?thesis by (auto simp: cycleStep_def Let_def)
  next
    case True
    with fb have "findBestWindow prices (cs + cw) dw False = (ds, da, True)" by simp
    from findBestWindow_bounds [OF this]
    have "cs + cw \<le> ds \<and> ds + dw \<le> length prices" .
    with assms st fb True show ?thesis
      by (auto simp: cycleStep_def Let_def split: if_splits)
  qed
qed

lemma cycleLoop_bounds:
  "cycleLoop prices cw dw eff ms cs st = (c, True)
   \<Longrightarrow> (fst st = c \<and> snd (snd st))
       \<or> (\<exists>cs' ds ca da pr. cs \<le> cs' \<and> cs' + cw \<le> ds \<and> ds + dw \<le> length prices
             \<and> c = mkCycle prices cs' cw ca ds dw da pr)"
proof (induction prices cw dw eff ms cs st rule: cycleLoop.induct)
  case (1 prices cw dw eff ms cs st)
  show ?case
  proof (cases "cs + cw \<le> length prices")
    case False
    then have "cycleLoop prices cw dw eff ms cs st = (fst st, snd (snd st))"
      by (subst cycleLoop.simps) (simp add: case_prod_beta)
    with "1.prems" show ?thesis by simp
  next
    case True
    let ?st = "cycleStep prices cw dw eff ms cs st"
    have "cycleLoop prices cw dw eff ms cs st = cycleLoop prices cw dw eff ms (cs + 1) ?st"
      by (subst cycleLoop.simps) (simp only: True if_True)
    with "1.prems" have "cycleLoop prices cw dw eff ms (cs + 1) ?st = (c, True)" by simp
    from "1.IH" [OF True this]
    consider (old) "fst ?st = c" "snd (snd ?st)"
      | (new) cs' ds ca da pr where "cs + 1 \<le> cs'" "cs' + cw \<le> ds" "ds + dw \<le> length prices"
          "c = mkCycle prices cs' cw ca ds dw da pr"
      by blast
    then show ?thesis
    proof cases
      case old
      from cycleStep_cases [OF refl, of prices cw dw eff ms cs st]
      show ?thesis
      proof
        assume "?st = st"
        with old show ?thesis by simp
      next
        assume "\<exists>ds ca da pr. cs + cw \<le> ds \<and> ds + dw \<le> length prices
            \<and> ?st = (mkCycle prices cs cw ca ds dw da pr, pr, True)"
        then obtain ds ca da pr where b: "cs + cw \<le> ds" "ds + dw \<le> length prices"
          and e: "?st = (mkCycle prices cs cw ca ds dw da pr, pr, True)" by blast
        from e old have "c = mkCycle prices cs cw ca ds dw da pr" by simp
        with b le_refl [of cs] show ?thesis by blast
      qed
    next
      case new
      from new(1) have "cs \<le> cs'" by simp
      with new(2,3,4) show ?thesis by blast
    qed
  qed
qed

lemma findBestCycle_bounds:
  assumes "findBestCycle prices s cw dw eff ms = (c, True)"
  shows "\<exists>cs ds ca da pr. s \<le> cs \<and> cs + cw \<le> ds \<and> ds + dw \<le> length prices
             \<and> c = mkCycle prices cs cw ca ds dw da pr"
  using cycleLoop_bounds [of prices cw dw eff ms s "(zeroCycle, - MaxFloat64, False)" c] assms
  by (simp add: findBestCycle_def)

subsection \<open>Times of the windows on contiguous slots\<close>

lemma contiguousSlots_nth:
  "contiguousSlots ps \<Longrightarrow> i < length ps \<Longrightarrow>
   unixNano (Time (ps ! i)) = unixNano (Time (ps ! 0)) + int i * (15 * Minute)"
  by (simp add: contiguousSlots_def list_all_iff)

lemma Minute_pos: "0 < 15 * Minute"
  by (simp add: Minute_def Second_def)

lemma mkCycle_times:
  assumes c: "contiguousSlots ps"
    and cw: "1 \<le> cw" and dw: "1 \<le> dw"
    and b: "cs + cw \<le> ds" "ds + dw \<le> length ps"
  shows "unixNano (Start (ChargeWindow (mkCycle ps cs cw ca ds dw da pr)))
           = unixNano (Time (ps ! 0)) + int cs * (15 * Minute)"
    and "unixNano (End (ChargeWindow (mkCycle ps cs cw ca ds dw da pr)))
           = unixNano (Time (ps ! 0)) + int (cs + cw) * (15 * Minute)"
    and "unixNano (Start (DischargeWindow (mkCycle ps cs cw ca ds dw da pr)))
           = unixNano (Time (ps ! 0)) + int ds * (15 * Minute)"
    and "unixNano (End (DischargeWindow (mkCycle ps cs cw ca ds dw da pr)))
           = unixNano (Time (ps ! 0)) + int (ds + dw) * (15 * Minute)"
proof -
  have i1: "cs < length ps" and i2: "cs + cw - 1 < length ps"
    and i3: "ds < length ps" and i4: "ds + dw - 1 < length ps"
    using cw dw b by auto
  have e2: "int (cs + cw - 1) + 1 = int (cs + cw)" using cw by auto
  have e4: "int (ds + dw - 1) + 1 = int (ds + dw)" using dw by auto
  show "unixNano (Start (ChargeWindow (mkCycle ps cs cw ca ds dw da pr)))
           = unixNano (Time (ps ! 0)) + int cs * (15 * Minute)"
    by (simp add: mkCycle_def contiguousSlots_nth [OF c i1])
  show "unixNano (Start (DischargeWindow (mkCycle ps cs cw ca ds dw da pr)))
           = unixNano (Time (ps ! 0)) + int ds * (15 * Minute)"
    by (simp add: mkCycle_def contiguousSlots_nth [OF c i3])
  have "unixNano (End (ChargeWindow (mkCycle ps cs cw ca ds dw da pr)))
           = unixNano (Time (ps ! 0)) + (int (cs + cw - 1) + 1) * (15 * Minute)"
    using contiguousSlots_nth [OF c i2] by (simp add: mkCycle_def Add_def algebra_simps)
  then show "unixNano (End (ChargeWindow (mkCycle ps cs cw ca ds dw da pr)))
           = unixNano (Time (ps ! 0)) + int (cs + cw) * (15 * Minute)"
    by (simp only: e2)
  have "unixNano (End (DischargeWindow (mkCycle ps cs cw ca ds dw da pr)))
           = unixNano (Time (ps ! 0)) + (int (ds + dw - 1) + 1) * (15 * Minute)"
    using contiguousSlots_nth [OF c i4] by (simp add: mkCycle_def Add_def algebra_simps)
  then show "unixNano (End (DischargeWindow (mkCycle ps cs cw ca ds dw da pr)))
           = unixNano (Time (ps ! 0)) + int (ds + dw) * (15 * Minute)"
    by (simp only: e4)
qed

lemma findSlotIndexFrom_found:
  "findSlotIndexFrom ps t i = r \<Longrightarrow>
   r = - 1 \<or> (i \<le> r \<and> r < i + int (length ps) \<and> \<not> Before (Time (ps ! nat (r - i))) t)"
proof (induction ps arbitrary: i)
  case Nil
  then show ?case by simp
next
  case (Cons p ps)
  show ?case
  proof (cases "Before (Time p) t")
    case False
    with Cons.prems show ?thesis by auto
  next
    case True
    with Cons.prems have "findSlotIndexFrom ps t (i + 1) = r" by simp
    from Cons.IH [OF this] show ?thesis
    proof
      assume "r = - 1" then show ?thesis by simp
    next
      assume a: "i + 1 \<le> r \<and> r < i + 1 + int (length ps)
                 \<and> \<not> Before (Time (ps ! nat (r - (i + 1)))) t"
      then have "nat (r - i) = Suc (nat (r - (i + 1)))" by auto
      with a show ?thesis by auto
    qed
  qed
qed

lemma findSlotIndex_found:
  assumes "findSlotIndex ps t = r" "0 \<le> r"
  shows "nat r < length ps \<and> unixNano t \<le> unixNano (Time (ps ! nat r))"
  using findSlotIndexFrom_found [of ps t 0 r] assms
  by (auto simp: findSlotIndex_def Before_def)

lemma chronological_mono:
  "chronological lo cs \<Longrightarrow> lo' \<le> lo \<Longrightarrow> chronological lo' cs"
  by (cases cs) auto

subsection \<open>The cycles of a plan follow one another\<close>

lemma calculateWindowSize_ge1: "1 \<le> calculateWindowSize c p"
  by (simp add: calculateWindowSize_def Let_def)

lemma cyclesLoop_length: "length (cyclesLoop k ps idx cw dw eff ms) \<le> k"
  by (induction k arbitrary: idx) (auto simp: Let_def split: prod.splits)

lemma cyclesLoop_chronological:
  assumes c: "contiguousSlots ps" and cw: "1 \<le> cw" and dw: "1 \<le> dw"
  shows "chronological (unixNano (Time (ps ! 0)) + int idx * (15 * Minute))
           (cyclesLoop k ps idx cw dw eff ms)"
proof (induction k arbitrary: idx)
  case 0
  show ?case by simp
next
  case (Suc k)
  obtain cy fnd where fb: "findBestCycle ps idx cw dw eff ms = (cy, fnd)"
    by (cases "findBestCycle ps idx cw dw eff ms") auto
  show ?case
  proof (cases fnd)
    case False
    with fb show ?thesis by simp
  next
    case True
    with fb have "findBestCycle ps idx cw dw eff ms = (cy, True)" by simp
    from findBestCycle_bounds [OF this]
    obtain cs ds ca da pr where b: "idx \<le> cs" "cs + cw \<le> ds" "ds + dw \<le> length ps"
      and cy: "cy = mkCycle ps cs cw ca ds dw da pr" by blast
    let ?t0 = "unixNano (Time (ps ! 0))"
    let ?m = "15 * Minute"
    note t = mkCycle_times [OF c cw dw b(2,3), of ca da pr, folded cy]
    have m: "0 < ?m" by (rule Minute_pos)
    have o1: "?t0 + int idx * ?m \<le> unixNano (Start (ChargeWindow cy))"
      using b(1) m by (simp add: t mult_right_mono)
    have o2: "unixNano (Start (ChargeWindow cy)) < unixNano (End (ChargeWindow cy))"
      using cw m by (simp add: t)
    have o3: "unixNano (End (ChargeWindow cy)) \<le> unixNano (Start (DischargeWindow cy))"
    proof -
      have "int (cs + cw) \<le> int ds" using b(2) by simp
      then have "int (cs + cw) * ?m \<le> int ds * ?m" using m by (intro mult_right_mono) auto
      then show ?thesis by (simp only: t add_le_cancel_left)
    qed
    have o4: "unixNano (Start (DischargeWindow cy)) < unixNano (End (DischargeWindow cy))"
      using dw m by (simp add: t)
    let ?next = "findSlotIndex ps (End (DischargeWindow cy))"
    show ?thesis
    proof (cases "?next < 0 \<or> ?next \<ge> int (length ps)")
      case stop: True
      then have "cyclesLoop (Suc k) ps idx cw dw eff ms = [cy]"
        using fb True by (simp add: Let_def)
      then show ?thesis using o1 o2 o3 o4 by simp
    next
      case go: False
      then have e: "cyclesLoop (Suc k) ps idx cw dw eff ms
                    = cy # cyclesLoop k ps (nat ?next) cw dw eff ms"
        using fb True by (simp add: Let_def)
      from go have nn: "0 \<le> ?next" by simp
      from findSlotIndex_found [OF refl nn]
      have lt: "nat ?next < length ps"
        and le: "unixNano (End (DischargeWindow cy)) \<le> unixNano (Time (ps ! nat ?next))"
        by auto
      have "unixNano (Time (ps ! nat ?next)) = ?t0 + int (nat ?next) * ?m"
        by (rule contiguousSlots_nth [OF c lt])
      with le have "unixNano (End (DischargeWindow cy)) \<le> ?t0 + int (nat ?next) * ?m" by simp
      from chronological_mono [OF Suc.IH [of "nat ?next"] this]
      show ?thesis using o1 o2 o3 o4 by (simp only: e chronological.simps simp_thms)
    qed
  qed
qed

lemma chronological_each:
  "chronological lo cs \<Longrightarrow> c \<in> set cs \<Longrightarrow>
   unixNano (Start (ChargeWindow c)) < unixNano (End (ChargeWindow c))
   \<and> unixNano (End (ChargeWindow c)) \<le> unixNano (Start (DischargeWindow c))
   \<and> unixNano (Start (DischargeWindow c)) < unixNano (End (DischargeWindow c))"
  by (induction cs arbitrary: lo) auto

lemma chronological_consecutive:
  "chronological lo cs \<Longrightarrow> Suc i < length cs \<Longrightarrow>
   unixNano (End (DischargeWindow (cs ! i))) \<le> unixNano (Start (ChargeWindow (cs ! Suc i)))"
proof (induction cs arbitrary: lo i)
  case Nil
  then show ?case by simp
next
  case (Cons c cs)
  show ?case
  proof (cases i)
    case 0
    with Cons.prems show ?thesis by (cases cs) auto
  next
    case (Suc j)
    with Cons.prems Cons.IH [of "unixNano (End (DischargeWindow c))" j] show ?thesis by simp
  qed
qed

lemma MaxFloat64_eq: "MaxFloat64 = (2 ^ 53 - 1) * 2 ^ 971"
  by (simp add: MaxFloat64_def)

text \<open>
  C1 (amended). On a price list of contiguous 15-minute slots, in every cycle of the plan
  the charge window ends no later than the discharge window starts (and each window starts
  before it ends), each cycle's charge window starts at or after the end of the discharge
  window of the cycle before it, and the number of cycles is at most the configured
  maximum per day when that is positive and at most \<open>2\<close> when it is zero or negative.
\<close>

theorem AnalyzePrices_cycles_chronological:
  assumes "contiguousSlots (sortByTime prices)"
  shows "(\<forall>c \<in> set (Cycles (AnalyzePrices prices conf)).
            unixNano (Start (ChargeWindow c)) < unixNano (End (ChargeWindow c))
            \<and> unixNano (End (ChargeWindow c)) \<le> unixNano (Start (DischargeWindow c))
            \<and> unixNano (Start (DischargeWindow c)) < unixNano (End (DischargeWindow c)))
       \<and> (\<forall>i. Suc i < length (Cycles (AnalyzePrices prices conf)) \<longrightarrow>
            unixNano (End (DischargeWindow (Cycles (AnalyzePrices prices conf) ! i)))
            \<le> unixNano (Start (ChargeWindow (Cycles (AnalyzePrices prices conf) ! Suc i))))
       \<and> int (length (Cycles (AnalyzePrices prices conf)))
            \<le> (if MaxCyclesPerDay conf \<le> 0 then 2 else MaxCyclesPerDay conf)"
proof -
  let ?s = "sortByTime prices"
  let ?cw = "nat (chargeWindowSize conf)" and ?dw = "nat (dischargeWindowSize conf)"
  let ?k = "nat (maxCycles conf)"
  let ?cs = "cyclesLoop ?k ?s 0 ?cw ?dw (Efficiency conf) (MinPriceSpread conf)"
  have cw: "1 \<le> ?cw" and dw: "1 \<le> ?dw"
    using calculateWindowSize_ge1 [of "usableCapacity conf" "ChargePowerW conf"]
      calculateWindowSize_ge1 [of "usableCapacity conf" "DischargePowerW conf"]
    by (simp_all add: chargeWindowSize_def dischargeWindowSize_def)
  have chr: "chronological (unixNano (Time (?s ! 0)) + int 0 * (15 * Minute)) ?cs"
    by (rule cyclesLoop_chronological [OF assms cw dw])
  have len: "int (length ?cs) \<le> (if MaxCyclesPerDay conf \<le> 0 then 2 else MaxCyclesPerDay conf)"
    using cyclesLoop_length [of ?k ?s 0 ?cw ?dw "Efficiency conf" "MinPriceSpread conf"]
    by (simp add: maxCycles_def split: if_splits)
  have cyc: "Cycles (AnalyzePrices prices conf) = ?cs \<or> Cycles (AnalyzePrices prices conf) = []"
    by (simp add: AnalyzePrices_def Let_def zeroPlan_def split: prod.splits)
  then show ?thesis
  proof
    assume e: "Cycles (AnalyzePrices prices conf) = []"
    show ?thesis by (simp add: e)
  next
    assume e: "Cycles (AnalyzePrices prices conf) = ?cs"
    show ?thesis
      unfolding e
      using chronological_each [OF chr] chronological_consecutive [OF chr] len by blast
  qed
qed

theorem AnalyzePrices_cycles_chronological_witness:
  "contiguousSlots (sortByTime (makePrices testBaseTime [1, 8, 1, 4]))
   \<and> Cycles (AnalyzePrices (makePrices testBaseTime [1, 8, 1, 4]) (exampleConfig 2)) =
       [mkCycle (makePrices testBaseTime [1, 8, 1, 4]) 0 1 1 1 1 8 3,
        mkCycle (makePrices testBaseTime [1, 8, 1, 4]) 2 1 1 3 1 4 1]
   \<and> unixNano (End (ChargeWindow (mkCycle (makePrices testBaseTime [1, 8, 1, 4]) 0 1 1 1 1 8 3)))
       \<le> unixNano (Start (DischargeWindow (mkCycle (makePrices testBaseTime [1, 8, 1, 4]) 0 1 1 1 1 8 3)))
   \<and> unixNano (End (DischargeWindow (mkCycle (makePrices testBaseTime [1, 8, 1, 4]) 0 1 1 1 1 8 3)))
       \<le> unixNano (Start (ChargeWindow (mkCycle (makePrices testBaseTime [1, 8, 1, 4]) 2 1 1 3 1 4 1)))
   \<and> int (length (Cycles (AnalyzePrices (makePrices testBaseTime [1, 8, 1, 4]) (exampleConfig 2))))
       \<le> MaxCyclesPerDay (exampleConfig 2)"
proof -
  let ?ps = "makePrices testBaseTime [1, 8, 1, 4]"
  let ?c0 = "mkCycle ?ps 0 1 1 1 1 8 3" and ?c1 = "mkCycle ?ps 2 1 1 3 1 4 1"
  have h: "contiguousSlots (sortByTime ?ps)" by code_simp
  have cy: "Cycles (AnalyzePrices ?ps (exampleConfig 2)) = [?c0, ?c1]" by code_simp
  note t = AnalyzePrices_cycles_chronological [OF h, of "exampleConfig 2", unfolded cy]
  from t have a: "unixNano (End (ChargeWindow ?c0)) \<le> unixNano (Start (DischargeWindow ?c0))"
    by simp
  from t have "\<forall>i. Suc i < length [?c0, ?c1] \<longrightarrow>
      unixNano (End (DischargeWindow ([?c0, ?c1] ! i)))
      \<le> unixNano (Start (ChargeWindow ([?c0, ?c1] ! Suc i)))" by blast
  then have "Suc 0 < length [?c0, ?c1] \<longrightarrow>
      unixNano (End (DischargeWindow ([?c0, ?c1] ! 0)))
      \<le> unixNano (Start (ChargeWindow ([?c0, ?c1] ! Suc 0)))" by (rule spec)
  then have b: "unixNano (End (DischargeWindow ?c0)) \<le> unixNano (Start (ChargeWindow ?c1))"
    by simp
  from t have c: "int (length [?c0, ?c1]) \<le> MaxCyclesPerDay (exampleConfig 2)"
    by (simp add: exampleConfig_def)
  show ?thesis using h a b c by (simp only: cy simp_thms)
qed

theorem AnalyzePrices_cycle_count_counterexample:
  "contiguousSlots (sortByTime (makePrices testBaseTime [1, 8, 1, 4]))
   \<and> MaxCyclesPerDay (exampleConfig 0) = 0
   \<and> length (Cycles (AnalyzePrices (makePrices testBaseTime [1, 8, 1, 4]) (exampleConfig 0))) = 2
   \<and> MaxCyclesPerDay (exampleConfig 0)
       < int (length (Cycles (AnalyzePrices (makePrices testBaseTime [1, 8, 1, 4]) (exampleConfig 0))))"
proof -
  let ?ps = "makePrices testBaseTime [1, 8, 1, 4]"
  have h: "contiguousSlots (sortByTime ?ps)" by code_simp
  have l: "length (Cycles (AnalyzePrices ?ps (exampleConfig 0))) = 2" by code_simp
  have m: "MaxCyclesPerDay (exampleConfig 0) = 0" by (simp add: exampleConfig_def)
  show ?thesis using h by (simp add: l m)
qed

section \<open>Properties of the ledger\<close>

subsection \<open>The totals of one day\<close>

lemma fold_dayStep:
  "chargedKWh (fold dayStep ts a)
     = chargedKWh a + energyOf (filter (\<lambda>t. Action t = ActionCharge) ts)
   \<and> dischargedKWh (fold dayStep ts a)
     = dischargedKWh a + energyOf (filter (\<lambda>t. Action t = ActionDischarge) ts)
   \<and> chargeCost (fold dayStep ts a)
     = chargeCost a + valueOf (filter (\<lambda>t. Action t = ActionCharge) ts)
   \<and> dischargeRevenue (fold dayStep ts a)
     = dischargeRevenue a + valueOf (filter (\<lambda>t. Action t = ActionDischarge) ts)"
proof (induction ts arbitrary: a)
  case Nil
  show ?case by (simp add: energyOf_def valueOf_def)
next
  case (Cons t ts)
  show ?case
    using Cons.IH [of "dayStep t a"]
    by (cases "Action t") (simp_all add: dayStep_def energyOf_def valueOf_def)
qed

lemma daySummary_fields:
  "AvgChargePrice (daySummary k ts) =
     (if energyOf (filter (\<lambda>t. Action t = ActionCharge) ts) \<noteq> 0
      then DivRound (valueOf (filter (\<lambda>t. Action t = ActionCharge) ts))
                    (energyOf (filter (\<lambda>t. Action t = ActionCharge) ts)) DivisionPrecision
      else 0)"
  "AvgDischargePrice (daySummary k ts) =
     (if energyOf (filter (\<lambda>t. Action t = ActionDischarge) ts) \<noteq> 0
      then DivRound (valueOf (filter (\<lambda>t. Action t = ActionDischarge) ts))
                    (energyOf (filter (\<lambda>t. Action t = ActionDischarge) ts)) DivisionPrecision
      else 0)"
  "PnLEUR (daySummary k ts) =
     valueOf (filter (\<lambda>t. Action t = ActionDischarge) ts)
     - valueOf (filter (\<lambda>t. Action t = ActionCharge) ts)"
  "DailySummary.Date (daySummary k ts) = k"
  "Trades (daySummary k ts) = ts"
  using fold_dayStep [of ts zeroTotals]
  by (simp_all add: daySummary_def Let_def zeroTotals_def)

subsection \<open>Grouping by day\<close>

lemma appendDay_map_of:
  "map_of (appendDay k t m) k' =
     (if k' = k then Some ((case map_of m k of None \<Rightarrow> [] | Some l \<Rightarrow> l) @ [t])
      else map_of m k')"
  by (induction m) auto

lemma appendDay_keys: "fst ` set (appendDay k t m) = insert k (fst ` set m)"
proof (induction m)
  case Nil
  show ?case by simp
next
  case (Cons e m)
  obtain k' l where e: "e = (k', l)" by (cases e) auto
  show ?case
  proof (cases "k' = k")
    case True
    then show ?thesis by (simp add: e insert_absorb)
  next
    case False
    then show ?thesis using Cons.IH by (simp add: e insert_commute)
  qed
qed

lemma appendDay_distinct:
  "distinct (map fst m) \<Longrightarrow> distinct (map fst (appendDay k t m))"
proof (induction m)
  case Nil
  show ?case by simp
next
  case (Cons e m)
  obtain k' l where e: "e = (k', l)" by (cases e) auto
  show ?case
  proof (cases "k' = k")
    case True
    with Cons.prems show ?thesis by (simp add: e)
  next
    case False
    with Cons show ?thesis
      using appendDay_keys [of k t m] by (simp add: e)
  qed
qed

lemma fold_appendDay_distinct:
  "distinct (map fst m) \<Longrightarrow>
   distinct (map fst (fold (\<lambda>t m. appendDay (FormatDate (Timestamp t)) t m) ts m))"
  by (induction ts arbitrary: m) (auto simp: appendDay_distinct)

lemma fold_appendDay_map_of:
  "map_of (fold (\<lambda>t m. appendDay (FormatDate (Timestamp t)) t m) ts m) k =
     (case map_of m k of
        None \<Rightarrow> (if filter (\<lambda>t. FormatDate (Timestamp t) = k) ts = [] then None
                 else Some (filter (\<lambda>t. FormatDate (Timestamp t) = k) ts))
      | Some l \<Rightarrow> Some (l @ filter (\<lambda>t. FormatDate (Timestamp t) = k) ts))"
proof (induction ts arbitrary: m)
  case Nil
  show ?case by (simp split: option.splits)
next
  case (Cons t ts)
  show ?case
    by (simp add: Cons.IH appendDay_map_of split: option.splits)
qed

lemma dayTradesOf_distinct: "distinct (map fst (dayTradesOf ts))"
  by (simp add: dayTradesOf_def fold_appendDay_distinct)

lemma dayTradesOf_entry:
  assumes "(k, l) \<in> set (dayTradesOf ts)"
  shows "l = filter (\<lambda>t. FormatDate (Timestamp t) = k) ts \<and> l \<noteq> []"
proof -
  from assms dayTradesOf_distinct have "map_of (dayTradesOf ts) k = Some l"
    by (simp add: map_of_eq_Some_iff)
  then show ?thesis
    by (simp add: dayTradesOf_def fold_appendDay_map_of split: if_splits)
qed


subsection \<open>Sums over the days and over the trades\<close>

lemma valueOf_signed:
  "valueOf (filter (\<lambda>t. Action t = ActionDischarge) ts)
   - valueOf (filter (\<lambda>t. Action t = ActionCharge) ts) = (\<Sum>t\<leftarrow>ts. signedValue t)"
proof (induction ts)
  case Nil
  show ?case by (simp add: valueOf_def)
next
  case (Cons t ts)
  then show ?case
    by (cases "Action t") (simp_all add: valueOf_def signedValue_def)
qed

lemma appendDay_sum:
  "(\<Sum>e\<leftarrow>appendDay k t m. \<Sum>x\<leftarrow>snd e. signedValue x)
   = (\<Sum>e\<leftarrow>m. \<Sum>x\<leftarrow>snd e. signedValue x) + signedValue t"
  by (induction m) auto

lemma fold_appendDay_sum:
  "(\<Sum>e\<leftarrow>fold (\<lambda>t m. appendDay (FormatDate (Timestamp t)) t m) ts m. \<Sum>x\<leftarrow>snd e. signedValue x)
   = (\<Sum>e\<leftarrow>m. \<Sum>x\<leftarrow>snd e. signedValue x) + (\<Sum>t\<leftarrow>ts. signedValue t)"
  by (induction ts arbitrary: m) (simp_all add: appendDay_sum)

lemma dayTradesOf_sum:
  "(\<Sum>e\<leftarrow>dayTradesOf ts. \<Sum>x\<leftarrow>snd e. signedValue x) = (\<Sum>t\<leftarrow>ts. signedValue t)"
  by (simp add: dayTradesOf_def fold_appendDay_sum)

lemma fold_pnlStep:
  "fold pnlStep ts (a, b) =
     (a + valueOf (filter (\<lambda>t. Action t = ActionDischarge) ts),
      b + valueOf (filter (\<lambda>t. Action t = ActionCharge) ts))"
proof (induction ts arbitrary: a b)
  case Nil
  show ?case by (simp add: valueOf_def)
next
  case (Cons t ts)
  obtain a' b' where st: "pnlStep t (a, b) = (a', b')" by (cases "pnlStep t (a, b)") auto
  then have ab: "a' = a + valueOf (filter (\<lambda>t. Action t = ActionDischarge) [t])"
    "b' = b + valueOf (filter (\<lambda>t. Action t = ActionCharge) [t])"
    by (cases "Action t"; simp add: pnlStep_def valueOf_def)+
  have "fold pnlStep (t # ts) (a, b) = fold pnlStep ts (a', b')" by (simp add: st)
  also have "\<dots> = (a' + valueOf (filter (\<lambda>t. Action t = ActionDischarge) ts),
                      b' + valueOf (filter (\<lambda>t. Action t = ActionCharge) ts))"
    by (rule Cons.IH)
  finally show ?case by (simp add: ab valueOf_def)
qed

lemma GetTotalPnL_sum: "GetTotalPnL r = (\<Sum>t\<leftarrow>trades r. signedValue t)"
  by (simp add: GetTotalPnL_def fold_pnlStep valueOf_signed)

lemma fold_total: "fold (\<lambda>d total. total + PnLEUR d) ds a = a + (\<Sum>d\<leftarrow>ds. PnLEUR d)"
  by (induction ds arbitrary: a) simp_all

subsection \<open>The sort keeps the summaries\<close>

lemma swapPass_mset: "mset (fst (swapPass x ys) # snd (swapPass x ys)) = mset (x # ys)"
proof (induction ys arbitrary: x)
  case Nil
  show ?case by simp
next
  case (Cons y ys)
  from Cons.IH [of y] Cons.IH [of x] show ?case
    by (auto split: prod.splits)
qed

lemma sortDays_mset: "mset (sortDays ds) = mset ds"
proof (induction ds rule: sortDays.induct)
  case 1
  show ?case by simp
next
  case (2 x xs)
  from "2.IH" swapPass_mset [of x xs] show ?case by simp
qed

subsection \<open>Rounding of the decimal division\<close>

lemma floor_half:
  fixes x :: rat
  shows "\<bar>of_int \<lfloor>x + 1 / 2\<rfloor> - x\<bar> \<le> 1 / 2"
proof -
  have "of_int \<lfloor>x + 1 / 2\<rfloor> \<le> x + 1 / 2" by (rule of_int_floor_le)
  moreover have "x + 1 / 2 < of_int \<lfloor>x + 1 / 2\<rfloor> + 1" by linarith
  ultimately show ?thesis by linarith
qed

lemma DivRound_error: "\<bar>DivRound a b n - a / b\<bar> \<le> 1 / (2 * 10 ^ n)"
proof -
  define q where "q = a / b"
  define s where "s = (10::rat) ^ n"
  define N where "N = \<lfloor>\<bar>q\<bar> * s + 1 / 2\<rfloor>"
  have s: "0 < s" by (simp add: s_def)
  have d: "\<bar>of_int N - \<bar>q\<bar> * s\<bar> \<le> 1 / 2" unfolding N_def by (rule floor_half)
  have dr: "DivRound a b n = sgn q * of_int N / s"
    by (simp add: DivRound_def Let_def q_def s_def N_def)
  have "sgn q * of_int N / s - q = sgn q * (of_int N / s - \<bar>q\<bar>)"
    using sgn_mult_abs [of q] by (simp add: algebra_simps mult.commute)
  then have "\<bar>DivRound a b n - q\<bar> = \<bar>sgn q\<bar> * \<bar>of_int N / s - \<bar>q\<bar>\<bar>"
    by (simp add: dr abs_mult)
  also have "\<dots> \<le> \<bar>of_int N / s - \<bar>q\<bar>\<bar>"
    by (cases "q = 0") (simp_all add: abs_sgn_eq)
  also have "of_int N / s - \<bar>q\<bar> = (of_int N - \<bar>q\<bar> * s) / s"
    using s by (simp add: field_simps)
  also have "\<bar>(of_int N - \<bar>q\<bar> * s) / s\<bar> = \<bar>of_int N - \<bar>q\<bar> * s\<bar> / s"
    using s by (simp add: abs_divide)
  also have "\<dots> \<le> (1 / 2) / s"
    using d s by (intro divide_right_mono) auto
  finally show ?thesis by (simp add: q_def s_def)
qed


subsection \<open>Daily summaries and the total\<close>

lemma GetHistory_Days:
  assumes "mset visited = mset (dayTradesOf (trades r))"
  shows "Days (GetHistory r visited) = sortDays (map (\<lambda>(dayKey, ts). daySummary dayKey ts) visited)"
proof (cases "trades r = []")
  case True
  with assms have "visited = []" by (simp add: dayTradesOf_def)
  with True show ?thesis by (simp add: GetHistory_def)
next
  case False
  then show ?thesis by (simp add: GetHistory_def Let_def split: prod.splits)
qed

lemma GetHistory_TotalPnL:
  assumes "mset visited = mset (dayTradesOf (trades r))"
  shows "TotalPnL (GetHistory r visited)
         = (\<Sum>d\<leftarrow>map (\<lambda>(dayKey, ts). daySummary dayKey ts) visited. PnLEUR d)"
proof (cases "trades r = []")
  case True
  with assms have "visited = []" by (simp add: dayTradesOf_def)
  with True show ?thesis by (simp add: GetHistory_def)
next
  case False
  then show ?thesis by (simp add: GetHistory_def Let_def fold_total split: prod.splits)
qed

lemma visited_sum:
  assumes "mset visited = mset (dayTradesOf (trades r))"
  shows "(\<Sum>d\<leftarrow>map (\<lambda>(dayKey, ts). daySummary dayKey ts) visited. PnLEUR d)
         = (\<Sum>t\<leftarrow>trades r. signedValue t)"
proof -
  have "(\<Sum>d\<leftarrow>map (\<lambda>(dayKey, ts). daySummary dayKey ts) visited. PnLEUR d)
        = (\<Sum>e\<leftarrow>visited. \<Sum>x\<leftarrow>snd e. signedValue x)"
    by (simp add: comp_def case_prod_beta daySummary_fields valueOf_signed)
  also have "\<dots> = sum_mset (image_mset (\<lambda>e. \<Sum>x\<leftarrow>snd e. signedValue x) (mset visited))"
    by (simp flip: sum_mset_sum_list)
  also have "\<dots> = (\<Sum>e\<leftarrow>dayTradesOf (trades r). \<Sum>x\<leftarrow>snd e. signedValue x)"
    by (simp add: assms flip: sum_mset_sum_list)
  finally show ?thesis by (simp add: dayTradesOf_sum)
qed

lemma Days_sum:
  "(\<Sum>d\<leftarrow>sortDays ds. PnLEUR d) = (\<Sum>d\<leftarrow>ds. PnLEUR d)"
proof -
  have "(\<Sum>d\<leftarrow>sortDays ds. PnLEUR d) = sum_mset (image_mset PnLEUR (mset (sortDays ds)))"
    by (simp flip: sum_mset_sum_list)
  also have "\<dots> = (\<Sum>d\<leftarrow>ds. PnLEUR d)"
    by (simp add: sortDays_mset flip: sum_mset_sum_list)
  finally show ?thesis .
qed

lemma Days_member:
  assumes v: "mset visited = mset (dayTradesOf (trades r))"
    and d: "d \<in> set (Days (GetHistory r visited))"
  shows "\<exists>ts. d = daySummary (DailySummary.Date d) ts
           \<and> filter (\<lambda>t. Action t = ActionCharge) ts
               = tradesOfDay r (DailySummary.Date d) ActionCharge
           \<and> filter (\<lambda>t. Action t = ActionDischarge) ts
               = tradesOfDay r (DailySummary.Date d) ActionDischarge"
proof -
  have "set (sortDays (map (\<lambda>(dayKey, ts). daySummary dayKey ts) visited))
        = set (map (\<lambda>(dayKey, ts). daySummary dayKey ts) visited)"
    using sortDays_mset by (metis set_mset_mset)
  with d GetHistory_Days [OF v]
  obtain k ts where kt: "(k, ts) \<in> set visited" and dd: "d = daySummary k ts" by auto
  from v have "set visited = set (dayTradesOf (trades r))" by (metis set_mset_mset)
  with kt have "(k, ts) \<in> set (dayTradesOf (trades r))" by simp
  from dayTradesOf_entry [OF this]
  have ts: "ts = filter (\<lambda>t. FormatDate (Timestamp t) = k) (trades r)" by simp
  have k: "DailySummary.Date d = k" by (simp add: dd daySummary_fields)
  have f1: "filter (\<lambda>t. Action t = ActionCharge) ts = tradesOfDay r k ActionCharge"
    by (simp add: ts tradesOfDay_def conj_commute)
  have f2: "filter (\<lambda>t. Action t = ActionDischarge) ts = tradesOfDay r k ActionDischarge"
    by (simp add: ts tradesOfDay_def conj_commute)
  show ?thesis unfolding k using dd f1 f2 by blast
qed


text \<open>
  C8. For every list of recorded trades and every order in which the days are visited,
  each day's summary has the energy-weighted average charge price
  \<open>\<Sum>(price * energy) / \<Sum>energy\<close> over that day's charge trades, the quotient being
  taken by the ledger's decimal division (16 digits after the point, so within
  \<open>1 / (2 * 10^16)\<close> of the exact quotient), and \<open>0\<close> when no energy was charged; the
  same holds for the discharge trades; the day's profit is the discharge revenue minus
  the charge cost; and the total of GetTotalPnL, computed from the single trades, is
  exactly the sum of the daily profits, which is also the total that GetHistory reports.
\<close>

theorem GetHistory_daily_summaries:
  assumes "mset visited = mset (dayTradesOf (trades r))"
  shows "(\<forall>d \<in> set (Days (GetHistory r visited)).
            AvgChargePrice d =
              (if energyOf (tradesOfDay r (DailySummary.Date d) ActionCharge) = 0 then 0
               else DivRound (valueOf (tradesOfDay r (DailySummary.Date d) ActionCharge))
                      (energyOf (tradesOfDay r (DailySummary.Date d) ActionCharge))
                      DivisionPrecision)
          \<and> \<bar>AvgChargePrice d
               - valueOf (tradesOfDay r (DailySummary.Date d) ActionCharge)
                 / energyOf (tradesOfDay r (DailySummary.Date d) ActionCharge)\<bar>
              \<le> 1 / (2 * 10 ^ 16)
          \<and> AvgDischargePrice d =
              (if energyOf (tradesOfDay r (DailySummary.Date d) ActionDischarge) = 0 then 0
               else DivRound (valueOf (tradesOfDay r (DailySummary.Date d) ActionDischarge))
                      (energyOf (tradesOfDay r (DailySummary.Date d) ActionDischarge))
                      DivisionPrecision)
          \<and> \<bar>AvgDischargePrice d
               - valueOf (tradesOfDay r (DailySummary.Date d) ActionDischarge)
                 / energyOf (tradesOfDay r (DailySummary.Date d) ActionDischarge)\<bar>
              \<le> 1 / (2 * 10 ^ 16)
          \<and> PnLEUR d = valueOf (tradesOfDay r (DailySummary.Date d) ActionDischarge)
                       - valueOf (tradesOfDay r (DailySummary.Date d) ActionCharge))
       \<and> GetTotalPnL r = (\<Sum>d\<leftarrow>Days (GetHistory r visited). PnLEUR d)
       \<and> TotalPnL (GetHistory r visited) = GetTotalPnL r"
proof (intro conjI ballI)
  fix d
  assume d: "d \<in> set (Days (GetHistory r visited))"
  from Days_member [OF assms d] obtain ts where
    dd: "d = daySummary (DailySummary.Date d) ts"
    and c: "filter (\<lambda>t. Action t = ActionCharge) ts
            = tradesOfDay r (DailySummary.Date d) ActionCharge"
    and e: "filter (\<lambda>t. Action t = ActionDischarge) ts
            = tradesOfDay r (DailySummary.Date d) ActionDischarge"
    by blast
  let ?ch = "tradesOfDay r (DailySummary.Date d) ActionCharge"
  let ?dis = "tradesOfDay r (DailySummary.Date d) ActionDischarge"
  have "AvgChargePrice (daySummary (DailySummary.Date d) ts) =
          (if energyOf ?ch = 0 then 0 else DivRound (valueOf ?ch) (energyOf ?ch) DivisionPrecision)"
    by (simp add: daySummary_fields c)
  then show ac: "AvgChargePrice d =
          (if energyOf ?ch = 0 then 0 else DivRound (valueOf ?ch) (energyOf ?ch) DivisionPrecision)"
    using dd by simp
  show "\<bar>AvgChargePrice d - valueOf ?ch / energyOf ?ch\<bar> \<le> 1 / (2 * 10 ^ 16)"
    using DivRound_error [of "valueOf ?ch" "energyOf ?ch" 16]
    by (cases "energyOf ?ch = 0") (simp_all add: ac DivisionPrecision_def)
  have "AvgDischargePrice (daySummary (DailySummary.Date d) ts) =
          (if energyOf ?dis = 0 then 0
           else DivRound (valueOf ?dis) (energyOf ?dis) DivisionPrecision)"
    by (simp add: daySummary_fields e)
  then show ad: "AvgDischargePrice d =
          (if energyOf ?dis = 0 then 0
           else DivRound (valueOf ?dis) (energyOf ?dis) DivisionPrecision)"
    using dd by simp
  show "\<bar>AvgDischargePrice d - valueOf ?dis / energyOf ?dis\<bar> \<le> 1 / (2 * 10 ^ 16)"
    using DivRound_error [of "valueOf ?dis" "energyOf ?dis" 16]
    by (cases "energyOf ?dis = 0") (simp_all add: ad DivisionPrecision_def)
  have "PnLEUR (daySummary (DailySummary.Date d) ts) = valueOf ?dis - valueOf ?ch"
    by (simp add: daySummary_fields c e)
  then show "PnLEUR d = valueOf ?dis - valueOf ?ch" using dd by simp
next
  let ?ds = "map (\<lambda>(dayKey, ts). daySummary dayKey ts) visited"
  have "GetTotalPnL r = (\<Sum>t\<leftarrow>trades r. signedValue t)" by (rule GetTotalPnL_sum)
  also have "\<dots> = (\<Sum>d\<leftarrow>?ds. PnLEUR d)" by (rule visited_sum [OF assms, symmetric])
  also have "\<dots> = (\<Sum>d\<leftarrow>sortDays ?ds. PnLEUR d)" by (rule Days_sum [symmetric])
  also have "\<dots> = (\<Sum>d\<leftarrow>Days (GetHistory r visited). PnLEUR d)"
    by (simp only: GetHistory_Days [OF assms])
  finally show "GetTotalPnL r = (\<Sum>d\<leftarrow>Days (GetHistory r visited). PnLEUR d)" .
next
  let ?ds = "map (\<lambda>(dayKey, ts). daySummary dayKey ts) visited"
  have "TotalPnL (GetHistory r visited) = (\<Sum>d\<leftarrow>?ds. PnLEUR d)"
    by (rule GetHistory_TotalPnL [OF assms])
  also have "\<dots> = (\<Sum>t\<leftarrow>trades r. signedValue t)" by (rule visited_sum [OF assms])
  also have "\<dots> = GetTotalPnL r" by (rule GetTotalPnL_sum [symmetric])
  finally show "TotalPnL (GetHistory r visited) = GetTotalPnL r" .
qed

theorem GetHistory_daily_summaries_witness:
  "mset (rev (dayTradesOf (trades exampleLedger))) = mset (dayTradesOf (trades exampleLedger))
   \<and> map DailySummary.Date
        (Days (GetHistory exampleLedger (rev (dayTradesOf (trades exampleLedger)))))
       = [19738, 19737]
   \<and> map AvgChargePrice
        (Days (GetHistory exampleLedger (rev (dayTradesOf (trades exampleLedger)))))
       = [1 / 10, 1666666666666667 / 10 ^ 16]
   \<and> map PnLEUR (Days (GetHistory exampleLedger (rev (dayTradesOf (trades exampleLedger)))))
       = [1 / 5, 3 / 10]
   \<and> GetTotalPnL exampleLedger = 1 / 2
   \<and> GetTotalPnL exampleLedger
       = (\<Sum>d\<leftarrow>Days (GetHistory exampleLedger (rev (dayTradesOf (trades exampleLedger)))).
            PnLEUR d)
   \<and> TotalPnL (GetHistory exampleLedger (rev (dayTradesOf (trades exampleLedger))))
       = GetTotalPnL exampleLedger"
proof -
  let ?v = "rev (dayTradesOf (trades exampleLedger))"
  have h: "mset ?v = mset (dayTradesOf (trades exampleLedger))" by simp
  have a: "map DailySummary.Date (Days (GetHistory exampleLedger ?v)) = [19738, 19737]"
    by code_simp
  have b: "map AvgChargePrice (Days (GetHistory exampleLedger ?v))
           = [1 / 10, 1666666666666667 / 10 ^ 16]"
    by code_simp
  have c: "map PnLEUR (Days (GetHistory exampleLedger ?v)) = [1 / 5, 3 / 10]"
    by code_simp
  have t: "GetTotalPnL exampleLedger = 1 / 2" by code_simp
  from GetHistory_daily_summaries [OF h]
  have "GetTotalPnL exampleLedger = (\<Sum>d\<leftarrow>Days (GetHistory exampleLedger ?v). PnLEUR d)"
    and "TotalPnL (GetHistory exampleLedger ?v) = GetTotalPnL exampleLedger"
    by blast+
  with h a b c t show ?thesis by (simp only: simp_thms)
qed

text \<open>
  C9, at a failing input. The recorder's location is UTC. Both trades of
  \<open>mixedZoneLedger\<close> fall on 2024-01-15 (day 19737) in that location, but the first
  timestamp carries the offset +02:00, in which it reads 2024-01-16 00:30. GetHistory
  puts the two trades into two daily summaries, and GetTodaySummary, asked at
  2024-01-15 23:00 UTC, returns the second trade only.
\<close>

theorem GetHistory_day_of_carried_zone:
  "FormatDate (In (Timestamp (trades mixedZoneLedger ! 0)) (Recorder.loc mixedZoneLedger)) = 19737
   \<and> FormatDate (In (Timestamp (trades mixedZoneLedger ! 1)) (Recorder.loc mixedZoneLedger)) = 19737
   \<and> map (\<lambda>d. (DailySummary.Date d, Trades d))
        (Days (GetHistory mixedZoneLedger (dayTradesOf (trades mixedZoneLedger))))
       = [(19738, [trades mixedZoneLedger ! 0]), (19737, [trades mixedZoneLedger ! 1])]
   \<and> Trades (GetTodaySummary mixedZoneLedger (dayTradesOf (trades mixedZoneLedger))
               \<lparr>unixNano = (1705276800 + 82800) * Second, zoneOffset = 0\<rparr>)
       = [trades mixedZoneLedger ! 1]"
  by code_simp

section \<open>Properties of the engine\<close>

subsection \<open>What each operation sends and where it leaves the engine\<close>

lemma transitionToIdleLocked_result:
  "snd (transitionToIdleLocked s) = [Idle]" "state (fst (transitionToIdleLocked s)) = StateIdle"
  "recorder (fst (transitionToIdleLocked s)) = recorder s"
  "lastChargePrice (fst (transitionToIdleLocked s)) = lastChargePrice s"
  by (simp_all add: transitionToIdleLocked_def)

lemma stopChargingLocked_result:
  "snd (stopChargingLocked s w soc) = [Idle]"
  "state (fst (stopChargingLocked s w soc)) = StateIdle"
  by (simp_all add: stopChargingLocked_def Let_def transitionToIdleLocked_def)

lemma stopDischargingLocked_result:
  "snd (stopDischargingLocked s w soc) = [Idle]"
  "state (fst (stopDischargingLocked s w soc)) = StateIdle"
  by (simp_all add: stopDischargingLocked_def Let_def transitionToIdleLocked_def)


lemma refreshPassiveModeLocked_result:
  "snd (refreshPassiveModeLocked s w pw) = []
   \<or> snd (refreshPassiveModeLocked s w pw) = [SetPassiveMode pw (PassiveModeTimeoutS (cfg s))]"
  "state (fst (refreshPassiveModeLocked s w pw)) = state s"
  by (simp_all add: refreshPassiveModeLocked_def Let_def)

subsection \<open>The profitability gate\<close>

lemma isDischargeProfitiable_eq:
  "isDischargeProfitiable s p =
     (if lastChargePrice s = 0 then Some False
      else if NewFromFloat (BatteryEfficiency (cfg s)) = 0 then None
      else Some (p > DivRound (lastChargePrice s) (NewFromFloat (BatteryEfficiency (cfg s)))
                        DivisionPrecision))"
  by (simp add: isDischargeProfitiable_def Div_def Let_def)


text \<open>
  C3 (amended). The gate returns true exactly when a cost basis is known (\<open>lastChargePrice\<close>
  is not zero), the efficiency is not zero and the price exceeds
  \<^verbatim>\<open>lastChargePrice.Div(efficiency)\<close>, the quotient rounded to 16 digits after the decimal
  point; that quotient is within \<open>1 / (2 * 10^16)\<close> of \<open>lastChargePrice / efficiency\<close>, so a
  price above the exact quotient by more than that passes, and a price that passes is
  above the exact quotient less that. With an efficiency of zero and a known cost basis
  the division panics and nothing is returned. With no cost basis the gate returns false
  for every price. With efficiency 0.90 and cost basis 0.10, the price 0.11 is rejected
  and 0.12 is accepted.
\<close>

theorem isDischargeProfitiable_gate:
  "(isDischargeProfitiable s p = Some True \<longleftrightarrow>
      lastChargePrice s \<noteq> 0 \<and> NewFromFloat (BatteryEfficiency (cfg s)) \<noteq> 0
      \<and> p > DivRound (lastChargePrice s) (NewFromFloat (BatteryEfficiency (cfg s)))
                DivisionPrecision)
   \<and> (isDischargeProfitiable s p = None \<longleftrightarrow>
      lastChargePrice s \<noteq> 0 \<and> NewFromFloat (BatteryEfficiency (cfg s)) = 0)
   \<and> \<bar>DivRound (lastChargePrice s) (NewFromFloat (BatteryEfficiency (cfg s))) DivisionPrecision
       - lastChargePrice s / NewFromFloat (BatteryEfficiency (cfg s))\<bar> \<le> 1 / (2 * 10 ^ 16)
   \<and> (lastChargePrice s \<noteq> 0 \<and> NewFromFloat (BatteryEfficiency (cfg s)) \<noteq> 0
       \<and> p > lastChargePrice s / NewFromFloat (BatteryEfficiency (cfg s)) + 1 / (2 * 10 ^ 16)
       \<longrightarrow> isDischargeProfitiable s p = Some True)
   \<and> (isDischargeProfitiable s p = Some True
       \<longrightarrow> p > lastChargePrice s / NewFromFloat (BatteryEfficiency (cfg s)) - 1 / (2 * 10 ^ 16))
   \<and> (lastChargePrice s = 0 \<longrightarrow> isDischargeProfitiable s p = Some False)
   \<and> isDischargeProfitiable
         ((newService testConfig)\<lparr>lastChargePrice := NewFromFloat (f64 (10 / 100))\<rparr>)
         (NewFromFloat (f64 (11 / 100))) = Some False
   \<and> isDischargeProfitiable
         ((newService testConfig)\<lparr>lastChargePrice := NewFromFloat (f64 (10 / 100))\<rparr>)
         (NewFromFloat (f64 (12 / 100))) = Some True"
proof -
  let ?c = "lastChargePrice s" and ?e = "NewFromFloat (BatteryEfficiency (cfg s))"
  have t: "isDischargeProfitiable s p = Some True \<longleftrightarrow>
      ?c \<noteq> 0 \<and> ?e \<noteq> 0 \<and> p > DivRound ?c ?e DivisionPrecision"
    by (simp add: isDischargeProfitiable_eq)
  have n: "isDischargeProfitiable s p = None \<longleftrightarrow> ?c \<noteq> 0 \<and> ?e = 0"
    by (simp add: isDischargeProfitiable_eq)
  have r: "\<bar>DivRound ?c ?e DivisionPrecision - ?c / ?e\<bar> \<le> 1 / (2 * 10 ^ 16)"
    using DivRound_error [of ?c ?e 16] by (simp add: DivisionPrecision_def)
  have up: "?c \<noteq> 0 \<and> ?e \<noteq> 0 \<and> p > ?c / ?e + 1 / (2 * 10 ^ 16)
       \<longrightarrow> isDischargeProfitiable s p = Some True"
  proof
    assume h: "?c \<noteq> 0 \<and> ?e \<noteq> 0 \<and> p > ?c / ?e + 1 / (2 * 10 ^ 16)"
    with r have "p > DivRound ?c ?e DivisionPrecision" by linarith
    with h t show "isDischargeProfitiable s p = Some True" by blast
  qed
  have dn: "isDischargeProfitiable s p = Some True \<longrightarrow> p > ?c / ?e - 1 / (2 * 10 ^ 16)"
  proof
    assume "isDischargeProfitiable s p = Some True"
    with t have "p > DivRound ?c ?e DivisionPrecision" by blast
    with r show "p > ?c / ?e - 1 / (2 * 10 ^ 16)" by linarith
  qed
  have z: "?c = 0 \<longrightarrow> isDischargeProfitiable s p = Some False"
    by (simp add: isDischargeProfitiable_eq)
  have a: "isDischargeProfitiable
         ((newService testConfig)\<lparr>lastChargePrice := NewFromFloat (f64 (10 / 100))\<rparr>)
         (NewFromFloat (f64 (11 / 100))) = Some False"
    by code_simp
  have b: "isDischargeProfitiable
         ((newService testConfig)\<lparr>lastChargePrice := NewFromFloat (f64 (10 / 100))\<rparr>)
         (NewFromFloat (f64 (12 / 100))) = Some True"
    by code_simp
  from t n r up dn z a b show ?thesis by (intro conjI)
qed

theorem isDischargeProfitiable_gate_witness:
  "lastChargePrice (newService testConfig) = 0
   \<and> isDischargeProfitiable (newService testConfig) 1000 = Some False
   \<and> lastChargePrice ((newService testConfig)\<lparr>lastChargePrice := 1 / 10\<rparr>) \<noteq> 0
   \<and> NewFromFloat (BatteryEfficiency
        (cfg ((newService testConfig)\<lparr>lastChargePrice := 1 / 10\<rparr>))) = 9 / 10
   \<and> (12 / 100 :: rat) > (1 / 10) / (9 / 10) + 1 / (2 * 10 ^ 16)
   \<and> isDischargeProfitiable ((newService testConfig)\<lparr>lastChargePrice := 1 / 10\<rparr>) (12 / 100)
       = Some True
   \<and> (12 / 100 :: rat) > (1 / 10) / (9 / 10) - 1 / (2 * 10 ^ 16)"
proof -
  let ?s = "(newService testConfig)\<lparr>lastChargePrice := 1 / 10\<rparr>"
  have h: "lastChargePrice (newService testConfig) = 0" by (simp add: newService_def)
  have c: "lastChargePrice ?s = 1 / 10" by simp
  have e: "NewFromFloat (BatteryEfficiency (cfg ?s)) = 9 / 10" by code_simp
  have g: "(12 / 100 :: rat) > (1 / 10) / (9 / 10) + 1 / (2 * 10 ^ 16)" by simp
  note A = isDischargeProfitiable_gate [of "newService testConfig" 1000]
  note B = isDischargeProfitiable_gate [of ?s "12 / 100", unfolded c e]
  from A h have 1: "isDischargeProfitiable (newService testConfig) 1000 = Some False"
    by blast
  from B g have 2: "isDischargeProfitiable ?s (12 / 100) = Some True"
    by simp
  from B 2 have 3: "(12 / 100 :: rat) > (1 / 10) / (9 / 10) - 1 / (2 * 10 ^ 16)"
    by blast
  have c0: "lastChargePrice ?s \<noteq> 0" by simp
  from h 1 c0 e g 2 3 show ?thesis by (intro conjI)
qed

text \<open>
  The claim as it is worded compares the price with the exact quotient. With efficiency
  0.90 and cost basis 0.05 the exact break-even price is 0.0555..., the decimal division
  rounds it up to 0.0555555555555556, and that price, which is above the exact quotient,
  is rejected.
\<close>

theorem isDischargeProfitiable_rounding_counterexample:
  "lastChargePrice ((newService testConfig)\<lparr>lastChargePrice := NewFromFloat (f64 (5 / 100))\<rparr>)
     = 5 / 100
   \<and> NewFromFloat (BatteryEfficiency (cfg ((newService testConfig)
         \<lparr>lastChargePrice := NewFromFloat (f64 (5 / 100))\<rparr>))) = 9 / 10
   \<and> NewFromFloat (f64 (555555555555556 / 10 ^ 16)) = 555555555555556 / 10 ^ 16
   \<and> (5 / 100) / (9 / 10) < (555555555555556 / 10 ^ 16 :: rat)
   \<and> isDischargeProfitiable
         ((newService testConfig)\<lparr>lastChargePrice := NewFromFloat (f64 (5 / 100))\<rparr>)
         (NewFromFloat (f64 (555555555555556 / 10 ^ 16))) = Some False"
  by code_simp

subsection \<open>The state-of-charge guards of a tick\<close>



lemma tickCharging_cmds:
  "snd (tickCharging s w bat inC) = [Idle] \<or> snd (tickCharging s w bat inC) = []
   \<or> snd (tickCharging s w bat inC)
       = [SetPassiveMode (- Config.ChargePowerW (cfg s)) (PassiveModeTimeoutS (cfg s))]"
  using refreshPassiveModeLocked_result(1) [of s w "- Config.ChargePowerW (cfg s)"]
  by (auto simp: tickCharging_def stopChargingLocked_result)


lemma tickDischarging_cmds:
  "snd (tickDischarging s w bat inD) = [Idle] \<or> snd (tickDischarging s w bat inD) = []
   \<or> snd (tickDischarging s w bat inD)
       = [SetPassiveMode (Config.DischargePowerW (cfg s)) (PassiveModeTimeoutS (cfg s))]"
  using refreshPassiveModeLocked_result(1) [of s w "Config.DischargePowerW (cfg s)"]
  by (auto simp: tickDischarging_def stopDischargingLocked_result)










text \<open>
  The floor the engine compares with is \<^verbatim>\<open>int(BatteryMinSOC * 100)\<close> computed in
  \<^verbatim>\<open>float64\<close>: for the configured minimum 0.29 the product is just below 29, the floor
  is 28, and an Idle engine starts a discharge at 29 per cent.
\<close>

lemma minSOCPercent_truncates:
  "minSOCPercent ((exampleEngine StateIdle)
      \<lparr>cfg := testConfig \<lparr>Config.BatteryMinSOC := f64 (29 / 100)\<rparr>\<rparr>) = 28
   \<and> (case tick ((exampleEngine StateIdle)
                   \<lparr>cfg := testConfig \<lparr>Config.BatteryMinSOC := f64 (29 / 100)\<rparr>\<rparr>)
                 (exampleWorld (atMinute 20) 29) of
         None \<Rightarrow> []
       | Some (s', cmds) \<Rightarrow> cmds) = [Discharge 2500 300]"
  by code_simp

section \<open>Properties of the rounding to float64\<close>





















































section \<open>Properties of the trade that ends a charge session\<close>



















text \<open>
  The fallback to the start price also takes a time-weighted average that is exactly zero
  for a missing one: with five minutes at -0.25 and five minutes at 0.25 the average is 0,
  and the trade and the cost basis get -0.25.
\<close>

lemma stopChargingLocked_zero_average:
  "map (overlap (atMinute 10) (atMinute 20)) (todayPrices zeroMeanEngine)
     = [5 * Minute, 5 * Minute]
   \<and> timeWeightedMean (todayPrices zeroMeanEngine) (atMinute 10) (atMinute 20) = 0
   \<and> (case tick zeroMeanEngine (exampleWorld (atMinute 20) 100) of
         None \<Rightarrow> False
       | Some (s', cmds) \<Rightarrow>
           map PriceEUR (trades (recorder s')) = [- (1 / 4)]
           \<and> lastChargePrice s' = - (1 / 4))"
  by code_simp

end
